theory Spec2Isabelle
  imports Main "HOL-Library.Multiset" "HOL-Library.Option_ord"
begin

section \<open>Data model of the watcher\<close>

text \<open>
  The watcher reads JSON objects from the transaction feed. The objects are typed as
  the feed documents them: a key holds a value of its type, a string, an integer
  (Python integers are unbounded, hence \<open>int\<close>) or a list of transfers, or it is
  null or absent. The source reads every key but one with \<open>.get\<close> and a test of
  the result, which takes null and an absent key alike: both are \<open>None\<close>, and a
  \<open>tokenTransfers\<close> that is null or absent is the empty list, as
  \<open>tx.get("tokenTransfers") or []\<close> makes it. The one exception is the timestamp:
  the sort key \<open>t.get("timestamp", 0)\<close> is 0 for an absent key and \<open>None\<close> for
  null, so the timestamp keeps the two apart.

  A Python \<open>str\<close> is represented by its UTF-8 encoding, a list of bytes: two
  strings are equal, or empty, exactly when their encodings are.
\<close>

datatype 'a jfield = Absent | Null | Val 'a

record token_info =
  tk_name :: "string option"
  tk_symbol :: "string option"

record transfer =
  fromUserAccount :: "string option"
  toUserAccount :: "string option"
  mint :: "string option"
  token :: "token_info option"
  tokenName :: "string option"
  tokenSymbol :: "string option"

record tx =
  signature :: "string option"
  timestamp :: "int jfield"
  tokenTransfers :: "transfer list"

text \<open>Truth value of an optional string: \<open>None\<close> and the empty string are false.\<close>

definition truthy :: "string option \<Rightarrow> bool" where
  "truthy s = (case s of None \<Rightarrow> False | Some x \<Rightarrow> x \<noteq> [])"

section \<open>Exceptions\<close>

text \<open>
  The three handlers of the poll loop distinguish \<open>requests.exceptions.HTTPError\<close>
  (with the status code of its response), any other \<open>requests.RequestException\<close>,
  and every other \<open>Exception\<close>.
\<close>

datatype exn = HTTPError int | RequestException | OtherException

section \<open>Novelty filter (lines 153 to 158 of the poll loop)\<close>

text \<open>
  The sort key \<open>lambda t: t.get("timestamp", 0)\<close>: the default 0 for an absent
  key, Python's \<open>None\<close> (here \<open>None\<close>) for a null timestamp.
\<close>

definition ts_key :: "tx \<Rightarrow> int option" where
  "ts_key t = (case timestamp t of Absent \<Rightarrow> Some 0 | Null \<Rightarrow> None | Val n \<Rightarrow> Some n)"

text \<open>
  \<open>sorted(txs, key=...)\<close>. Comparing \<open>None\<close> with an integer or with \<open>None\<close>
  raises TypeError, and in a list of two or more elements every element is compared
  at least once; a list of fewer elements is returned without a comparison. Python's
  sort is stable, and so is \<open>sort_key\<close>; the result of a stable sort is determined
  by its input. The order of \<open>int option\<close> puts \<open>None\<close> first, which plays no
  part: where there is a \<open>None\<close> key and a second element, the sort raises.
\<close>

definition txs_sorted :: "tx list \<Rightarrow> exn + tx list" where
  "txs_sorted txs =
     (if 2 \<le> length txs \<and> (\<exists>t\<in>set txs. ts_key t = None) then Inl OtherException
      else Inr (sort_key ts_key txs))"

text \<open>Lines 155 to 158: \<open>new_batch\<close>, computed from the sorted window.\<close>

definition new_batch :: "tx list \<Rightarrow> string option \<Rightarrow> tx list" where
  "new_batch sorted_txs last_sig =
     (if truthy last_sig
      then filter (\<lambda>t. signature t \<noteq> last_sig) sorted_txs
      else sorted_txs)"

text \<open>
  The novelty filter as a whole, lines 154 to 158: from the fetched window and the
  cursor to the batch of new transactions, or to the exception of the sort.
\<close>

definition select_new :: "tx list \<Rightarrow> string option \<Rightarrow> exn + tx list" where
  "select_new txs last_sig =
     (case txs_sorted txs of
        Inl e \<Rightarrow> Inl e
      | Inr sorted_txs \<Rightarrow> Inr (new_batch sorted_txs last_sig))"

section \<open>JSON values and the environment\<close>

datatype json =
    JNull
  | JBool bool
  | JNum int
  | JStr string
  | JArr "json list"
  | JObj "(string \<times> json) list"

fun py_truthy :: "json \<Rightarrow> bool" where
  "py_truthy JNull = False"
| "py_truthy (JBool b) = b"
| "py_truthy (JNum n) = (n \<noteq> 0)"
| "py_truthy (JStr s) = (s \<noteq> [])"
| "py_truthy (JArr xs) = (xs \<noteq> [])"
| "py_truthy (JObj kvs) = (kvs \<noteq> [])"

text \<open>
  The body of the metadata endpoint is read defensively by the source, so it is kept
  as an untyped JSON value (numbers being integers here).

  \<open>x.get(k, d)\<close>: only a dict has \<open>get\<close>, anything else raises AttributeError.
  Of a repeated key the JSON decoder keeps the last value.
\<close>

definition dict_get :: "json \<Rightarrow> string \<Rightarrow> json \<Rightarrow> exn + json" where
  "dict_get j k d =
     (case j of
        JObj kvs \<Rightarrow> Inr (case map_of (rev kvs) k of None \<Rightarrow> d | Some v \<Rightarrow> v)
      | _ \<Rightarrow> Inl OtherException)"

definition then_do :: "exn + 'a \<Rightarrow> ('a \<Rightarrow> exn + 'b) \<Rightarrow> exn + 'b" where
  "then_do r f = (case r of Inl e \<Rightarrow> Inl e | Inr x \<Rightarrow> f x)"

text \<open>The record returned by \<open>extract_token_details\<close>.\<close>

record details =
  d_signature :: "string option"
  d_time :: string
  d_token_name :: string
  d_ticker :: string
  d_mint :: string

text \<open>
  Everything the watcher does to the outside world, in order. The alert text is a fixed
  rendering of the \<open>details\<close> record and the watched address, so the events carry the
  record.
\<close>

datatype event =
    Print_init "string option"
  | Print_alert details
  | Telegram_post details
  | Print_telegram_skipped
  | Print_telegram_failed int
  | Meta_lookup string
  | Print_meta_failed string
  | Save "string option"
  | Print_rate_limit int
  | Print_http_error int
  | Print_network
  | Print_error
  | Sleep int

text \<open>
  The outside world answers each call as a function of what has happened so far:
  the feed either raises or returns a window, the Telegram call either raises or
  returns a status code, the metadata endpoint either raises (also on a bad status
  or a body that is not JSON) or returns the decoded body.
\<close>

record env =
  fetch_result :: "event list \<Rightarrow> exn + tx list"
  post_result :: "event list \<Rightarrow> details \<Rightarrow> exn + int"
  meta_result :: "event list \<Rightarrow> string \<Rightarrow> exn + json"

record config =
  WATCH_WALLET :: string
  TELEGRAM_BOT_TOKEN :: "string option"
  TELEGRAM_CHAT_ID :: "string option"

definition POLL_INTERVAL_SEC :: int where
  "POLL_INTERVAL_SEC = 20"

definition MAX_BACKOFF :: int where
  "MAX_BACKOFF = 300"

text \<open>
  \<open>state_file\<close> is what \<open>load_last_signature\<close> reads: \<open>None\<close> when the file is
  missing, unreadable or holds null. \<open>last_sig\<close> and \<open>retry_delay\<close> are the local
  variables of the poll loop, \<open>token_cache\<close> the module-level dictionary.
\<close>

record state =
  last_sig :: "string option"
  state_file :: "string option"
  retry_delay :: int
  token_cache :: "string \<rightharpoonup> string \<times> string"
  trace :: "event list"

definition emit :: "event \<Rightarrow> state \<Rightarrow> state" where
  "emit e st = st\<lparr>trace := trace st @ [e]\<rparr>"

section \<open>Cursor store\<close>

text \<open>
  Reading never raises (the source catches every exception and returns \<open>None\<close>).
  Writing the state file is taken to succeed.
\<close>

definition load_last_signature :: "state \<Rightarrow> string option" where
  "load_last_signature st = state_file st"

definition save_last_signature :: "string option \<Rightarrow> state \<Rightarrow> state" where
  "save_last_signature sig st = emit (Save sig) (st\<lparr>state_file := sig\<rparr>)"

section \<open>Telegram send\<close>

text \<open>
  \<open>send_telegram_text\<close> returns nothing; \<open>Some e\<close> is an exception leaving it, which
  only \<open>requests.post\<close> can raise.
\<close>

definition send_telegram_text :: "config \<Rightarrow> env \<Rightarrow> details \<Rightarrow> state \<Rightarrow> exn option \<times> state" where
  "send_telegram_text cfg en text st =
     (if \<not> truthy (TELEGRAM_BOT_TOKEN cfg) \<or> \<not> truthy (TELEGRAM_CHAT_ID cfg)
      then (None, emit Print_telegram_skipped st)
      else (case post_result en (trace st) text of
              Inl e \<Rightarrow> (Some e, emit (Telegram_post text) st)
            | Inr code \<Rightarrow>
                (None, if code \<noteq> 200
                       then emit (Print_telegram_failed code) (emit (Telegram_post text) st)
                       else emit (Telegram_post text) st)))"

section \<open>Token metadata lookup\<close>

text \<open>
  \<open>str.strip()\<close> removes the whitespace characters at both ends of a string: the
  code points for which \<open>str.isspace()\<close> holds, which are U+0009 to U+000D,
  U+001C to U+0020, U+0085, U+00A0, U+1680, U+2000 to U+200A, U+2028, U+2029,
  U+202F, U+205F and U+3000. These are their UTF-8 encodings. In UTF-8 no encoding
  of a character is the beginning or the end of the encoding of another, so a
  string begins (ends) with a whitespace character exactly when its encoding
  begins (ends) with one of these.
\<close>

definition whitespace :: "string list" where
  "whitespace =
     [[CHR 0x09], [CHR 0x0A], [CHR 0x0B], [CHR 0x0C], [CHR 0x0D],
      [CHR 0x1C], [CHR 0x1D], [CHR 0x1E], [CHR 0x1F], [CHR 0x20],
      [CHR 0xC2, CHR 0x85], [CHR 0xC2, CHR 0xA0],
      [CHR 0xE1, CHR 0x9A, CHR 0x80],
      [CHR 0xE2, CHR 0x80, CHR 0x80], [CHR 0xE2, CHR 0x80, CHR 0x81],
      [CHR 0xE2, CHR 0x80, CHR 0x82], [CHR 0xE2, CHR 0x80, CHR 0x83],
      [CHR 0xE2, CHR 0x80, CHR 0x84], [CHR 0xE2, CHR 0x80, CHR 0x85],
      [CHR 0xE2, CHR 0x80, CHR 0x86], [CHR 0xE2, CHR 0x80, CHR 0x87],
      [CHR 0xE2, CHR 0x80, CHR 0x88], [CHR 0xE2, CHR 0x80, CHR 0x89],
      [CHR 0xE2, CHR 0x80, CHR 0x8A],
      [CHR 0xE2, CHR 0x80, CHR 0xA8], [CHR 0xE2, CHR 0x80, CHR 0xA9],
      [CHR 0xE2, CHR 0x80, CHR 0xAF], [CHR 0xE2, CHR 0x81, CHR 0x9F],
      [CHR 0xE3, CHR 0x80, CHR 0x80]]"

text \<open>The length of the pattern that the string begins with, 0 when there is none.\<close>

definition ws_prefix :: "string list \<Rightarrow> string \<Rightarrow> nat" where
  "ws_prefix pats s =
     (case find (\<lambda>w. take (length w) s = w) pats of None \<Rightarrow> 0 | Some w \<Rightarrow> length w)"

function strip_left :: "string list \<Rightarrow> string \<Rightarrow> string" where
  "strip_left pats s =
     (if ws_prefix pats s = 0 then s else strip_left pats (drop (ws_prefix pats s) s))"
  by pat_completeness auto
termination
proof (relation "measure (\<lambda>(pats, s). length s)", goal_cases)
  case 1
  show ?case by simp
next
  case (2 pats s)
  then obtain w where f: "find (\<lambda>w. take (length w) s = w) pats = Some w" and l: "length w \<noteq> 0"
    by (cases "find (\<lambda>w. take (length w) s = w) pats") (simp_all add: ws_prefix_def)
  have "take (length w) s = w"
    using f unfolding find_Some_iff by blast
  then have "s \<noteq> []" using l by auto
  then show ?case using 2 by simp
qed

declare strip_left.simps [simp del]

definition strip :: "string \<Rightarrow> string" where
  "strip s = rev (strip_left (map rev whitespace) (rev (strip_left whitespace s)))"

text \<open>
  \<open>meta.get("onChainMetadata", {}).get("metadata", {}).get("data", {}).get(key)\<close>
\<close>

definition meta_field :: "json \<Rightarrow> string \<Rightarrow> exn + json" where
  "meta_field meta key =
     then_do (dict_get meta ''onChainMetadata'' (JObj [])) (\<lambda>a.
     then_do (dict_get a ''metadata'' (JObj [])) (\<lambda>b.
     then_do (dict_get b ''data'' (JObj [])) (\<lambda>c.
     dict_get c key JNull)))"

text \<open>
  \<open>if name: name = name.strip()\<close>: a true value that is not a string has no
  \<open>strip\<close> and raises. Every false value behaves alike in the \<open>or "unknown"\<close> that
  follows, so a false value is passed on as the empty string.
\<close>

definition strip_if_truthy :: "json \<Rightarrow> exn + string" where
  "strip_if_truthy j =
     (if py_truthy j
      then (case j of JStr s \<Rightarrow> Inr (strip s) | _ \<Rightarrow> Inl OtherException)
      else Inr [])"

definition or_unknown :: "string \<Rightarrow> string" where
  "or_unknown s = (if s \<noteq> [] then s else ''unknown'')"

text \<open>
  The body of the \<open>try\<close> in \<open>fetch_token_metadata\<close>, from the answer of the
  endpoint on: \<open>Inr (Some p)\<close> is the \<open>return\<close> inside the \<open>if\<close>, \<open>Inr None\<close>
  falls through (the body is false, not a list, or empty), \<open>Inl e\<close> is caught by
  \<open>except Exception\<close>.
\<close>

definition meta_try :: "exn + json \<Rightarrow> exn + (string \<times> string) option" where
  "meta_try r =
     then_do r (\<lambda>data.
       case data of
         JArr (meta # rest) \<Rightarrow>
           then_do (meta_field meta ''name'') (\<lambda>name.
           then_do (meta_field meta ''symbol'') (\<lambda>symbol.
           then_do (strip_if_truthy name) (\<lambda>name'.
           then_do (strip_if_truthy symbol) (\<lambda>symbol'.
           Inr (Some (or_unknown name', or_unknown symbol'))))))
       | _ \<Rightarrow> Inr None)"

definition cache_put :: "string \<Rightarrow> string \<times> string \<Rightarrow> state \<Rightarrow> state" where
  "cache_put m v st = st\<lparr>token_cache := (token_cache st)(m \<mapsto> v)\<rparr>"

definition fetch_token_metadata :: "env \<Rightarrow> string \<Rightarrow> state \<Rightarrow> (string \<times> string) \<times> state" where
  "fetch_token_metadata en m st =
     (case token_cache st m of
        Some v \<Rightarrow> (v, st)
      | None \<Rightarrow>
          (case meta_try (meta_result en (trace st) m) of
             Inr (Some v) \<Rightarrow> (v, cache_put m v (emit (Meta_lookup m) st))
           | Inr None \<Rightarrow>
               ((''unknown'', ''unknown''),
                cache_put m (''unknown'', ''unknown'') (emit (Meta_lookup m) st))
           | Inl e \<Rightarrow>
               ((''unknown'', ''unknown''),
                cache_put m (''unknown'', ''unknown'')
                  (emit (Print_meta_failed m) (emit (Meta_lookup m) st)))))"

section \<open>Rendering a timestamp\<close>

text \<open>
  \<open>datetime.fromtimestamp(ts, tz=timezone.utc).isoformat()\<close> for an integer \<open>ts\<close>:
  the proleptic Gregorian date and the time of day, as
  \<open>YYYY-MM-DDTHH:MM:SS+00:00\<close>. A \<open>datetime\<close> holds the years 1 to 9999; outside
  them the call raises.
\<close>

definition civil_from_days :: "int \<Rightarrow> int \<times> int \<times> int" where
  "civil_from_days z0 =
     (let z = z0 + 719468;
          era = z div 146097;
          doe = z - era * 146097;
          yoe = (doe - doe div 1460 + doe div 36524 - doe div 146096) div 365;
          y = yoe + era * 400;
          doy = doe - (365 * yoe + yoe div 4 - yoe div 100);
          mp = (5 * doy + 2) div 153;
          d = doy - (153 * mp + 2) div 5 + 1;
          m = (if mp < 10 then mp + 3 else mp - 9)
      in (if m \<le> 2 then y + 1 else y, m, d))"

definition digit :: "int \<Rightarrow> char" where
  "digit n = char_of (48 + nat (n mod 10))"

definition pad2 :: "int \<Rightarrow> string" where
  "pad2 n = [digit (n div 10), digit n]"

definition pad4 :: "int \<Rightarrow> string" where
  "pad4 n = [digit (n div 1000), digit (n div 100), digit (n div 10), digit n]"

definition ts_to_iso :: "int \<Rightarrow> exn + string" where
  "ts_to_iso ts_seconds =
     (if ts_seconds < - 62135596800 \<or> 253402300799 < ts_seconds then Inl OtherException
      else (let (y, m, d) = civil_from_days (ts_seconds div 86400);
                s = ts_seconds mod 86400
            in Inr (pad4 y @ ''-'' @ pad2 m @ ''-'' @ pad2 d @ ''T'' @
                    pad2 (s div 3600) @ '':'' @ pad2 (s mod 3600 div 60) @ '':'' @
                    pad2 (s mod 60) @ ''+00:00'')))"

section \<open>Token detail extraction\<close>

text \<open>\<open>a or d\<close> for an optional string \<open>a\<close> and a string \<open>d\<close>.\<close>

definition py_or :: "string option \<Rightarrow> string \<Rightarrow> string" where
  "py_or a d = (case a of None \<Rightarrow> d | Some x \<Rightarrow> if x \<noteq> [] then x else d)"

text \<open>
  The \<open>for\<close> loop with its \<open>break\<close>, then \<open>if not candidate and transfers\<close>. A
  transfer that matches the watched address has a key, so it is a true value.
\<close>

definition matches :: "string \<Rightarrow> transfer \<Rightarrow> bool" where
  "matches w t = (fromUserAccount t = Some w \<or> toUserAccount t = Some w)"

definition select_candidate :: "string \<Rightarrow> transfer list \<Rightarrow> transfer option" where
  "select_candidate w transfers =
     (case find (matches w) transfers of
        Some t \<Rightarrow> Some t
      | None \<Rightarrow> (case transfers of [] \<Rightarrow> None | t0 # rest \<Rightarrow> Some t0))"

text \<open>
  The three assignments under \<open>if candidate:\<close>, as (mint, token_name, ticker). A
  candidate that is an empty dict is skipped by the source and leaves the three
  defaults, which is also what the assignments give when every key is missing.
\<close>

definition candidate_fields :: "transfer option \<Rightarrow> string \<times> string \<times> string" where
  "candidate_fields candidate =
     (case candidate of
        None \<Rightarrow> (''unknown'', ''unknown'', ''unknown'')
      | Some c \<Rightarrow>
          (let token_info = (case token c of
                               None \<Rightarrow> \<lparr>tk_name = None, tk_symbol = None\<rparr>
                             | Some ti \<Rightarrow> ti)
           in (py_or (mint c) ''unknown'',
               py_or (tk_name token_info) (py_or (tokenName c) ''unknown''),
               py_or (tk_symbol token_info) (py_or (tokenSymbol c) ''unknown''))))"

text \<open>
  \<open>timestamp = tx.get("timestamp")\<close> and
  \<open>ts_to_iso(timestamp) if timestamp else "unknown"\<close>: the test is false for an
  absent key, for null, and for 0 too.
\<close>

definition iso_time :: "tx \<Rightarrow> exn + string" where
  "iso_time t =
     (case timestamp t of
        Absent \<Rightarrow> Inr ''unknown''
      | Null \<Rightarrow> Inr ''unknown''
      | Val ts \<Rightarrow> if ts \<noteq> 0 then ts_to_iso ts else Inr ''unknown'')"

definition extract_token_details :: "config \<Rightarrow> env \<Rightarrow> tx \<Rightarrow> state \<Rightarrow> (exn + details) \<times> state" where
  "extract_token_details cfg en t st =
     (case iso_time t of
        Inl e \<Rightarrow> (Inl e, st)
      | Inr time_str \<Rightarrow>
          (let (mint0, token_name0, ticker0) =
                 candidate_fields (select_candidate (WATCH_WALLET cfg) (tokenTransfers t))
           in if mint0 \<noteq> ''unknown'' \<and> (token_name0 = ''unknown'' \<or> ticker0 = ''unknown'')
              then (let ((meta_name, meta_symbol), st') = fetch_token_metadata en mint0 st
                    in (Inr \<lparr>d_signature = signature t, d_time = time_str,
                              d_token_name = (if token_name0 = ''unknown'' then meta_name else token_name0),
                              d_ticker = (if ticker0 = ''unknown'' then meta_symbol else ticker0),
                              d_mint = mint0\<rparr>, st'))
              else (Inr \<lparr>d_signature = signature t, d_time = time_str,
                         d_token_name = token_name0, d_ticker = ticker0,
                         d_mint = mint0\<rparr>, st)))"

section \<open>Poll loop\<close>

text \<open>
  The \<open>for tx in new_batch\<close> loop. An exception leaves the loop at once: the
  transactions after it are not processed and the cursor is not advanced for the one
  that raised.
\<close>

fun alert_loop :: "config \<Rightarrow> env \<Rightarrow> tx list \<Rightarrow> state \<Rightarrow> exn option \<times> state" where
  "alert_loop cfg en [] st = (None, st)"
| "alert_loop cfg en (t # rest) st =
     (case extract_token_details cfg en t st of
        (Inl e, st1) \<Rightarrow> (Some e, st1)
      | (Inr d, st1) \<Rightarrow>
          (case send_telegram_text cfg en d (emit (Print_alert d) st1) of
             (Some e, st2) \<Rightarrow> (Some e, st2)
           | (None, st2) \<Rightarrow>
               alert_loop cfg en rest
                 (save_last_signature (signature t) (st2\<lparr>last_sig := signature t\<rparr>))))"

text \<open>Lines 174 to 178: store the newest signature when nothing is stored yet.\<close>

definition first_run_save :: "tx list \<Rightarrow> state \<Rightarrow> state" where
  "first_run_save sorted_txs st =
     (if \<not> truthy (load_last_signature st) \<and> sorted_txs \<noteq> []
      then (let newest_sig = signature (last sorted_txs)
            in if truthy newest_sig
               then (save_last_signature newest_sig st)\<lparr>last_sig := newest_sig\<rparr>
               else st)
      else st)"

text \<open>
  The body of the \<open>try\<close> of one iteration. The heartbeat compares wall-clock times
  and only prints; it is left out.
\<close>

definition try_body :: "config \<Rightarrow> env \<Rightarrow> state \<Rightarrow> exn option \<times> state" where
  "try_body cfg en st =
     (case fetch_result en (trace st) of
        Inl e \<Rightarrow> (Some e, st)
      | Inr txs \<Rightarrow>
          (case (if txs \<noteq> []
                 then (case txs_sorted txs of
                         Inl e \<Rightarrow> (Some e, st)
                       | Inr sorted_txs \<Rightarrow>
                           (case alert_loop cfg en (new_batch sorted_txs (last_sig st)) st of
                              (Some e, st1) \<Rightarrow> (Some e, st1)
                            | (None, st1) \<Rightarrow> (None, first_run_save sorted_txs st1)))
                 else (None, st)) of
             (Some e, st2) \<Rightarrow> (Some e, st2)
           | (None, st2) \<Rightarrow>
               (None, emit (Sleep POLL_INTERVAL_SEC) (st2\<lparr>retry_delay := POLL_INTERVAL_SEC\<rparr>))))"

text \<open>The three \<open>except\<close> clauses, in the order of the source.\<close>

definition handle_exn :: "exn \<Rightarrow> state \<Rightarrow> state" where
  "handle_exn e st =
     (case e of
        HTTPError code \<Rightarrow>
          (if code = 429
           then (emit (Sleep (retry_delay st)) (emit (Print_rate_limit (retry_delay st)) st))
                  \<lparr>retry_delay := min (retry_delay st * 2) MAX_BACKOFF\<rparr>
           else emit (Sleep 10) (emit (Print_http_error code) st))
      | RequestException \<Rightarrow> emit (Sleep 10) (emit Print_network st)
      | OtherException \<Rightarrow> emit (Sleep 5) (emit Print_error st))"

definition poll_cycle :: "config \<Rightarrow> env \<Rightarrow> state \<Rightarrow> state" where
  "poll_cycle cfg en st =
     (case try_body cfg en st of
        (None, st') \<Rightarrow> st'
      | (Some e, st') \<Rightarrow> handle_exn e st')"

text \<open>
  \<open>while True\<close> never ends; \<open>poll_cycles n\<close> is the state after its first \<open>n\<close>
  iterations.
\<close>

fun poll_cycles :: "config \<Rightarrow> env \<Rightarrow> nat \<Rightarrow> state \<Rightarrow> state" where
  "poll_cycles cfg en 0 st = st"
| "poll_cycles cfg en (Suc n) st = poll_cycles cfg en n (poll_cycle cfg en st)"

text \<open>The two assignments before the loop.\<close>

definition poll_init :: "state \<Rightarrow> state" where
  "poll_init st =
     (emit (Print_init (load_last_signature st)) st)
       \<lparr>last_sig := load_last_signature st, retry_delay := POLL_INTERVAL_SEC\<rparr>"

definition poll_watch_wallet :: "config \<Rightarrow> env \<Rightarrow> nat \<Rightarrow> state \<Rightarrow> state" where
  "poll_watch_wallet cfg en n st = poll_cycles cfg en n (poll_init st)"

section \<open>Observations on a trace\<close>

text \<open>The cursor values written to the state file, in order.\<close>

fun saved :: "event \<Rightarrow> string option list" where
  "saved (Save s) = [s]"
| "saved _ = []"

definition saves :: "event list \<Rightarrow> string option list" where
  "saves tr = concat (map saved tr)"

text \<open>The alerts printed and the messages handed to Telegram.\<close>

fun is_alert :: "event \<Rightarrow> bool" where
  "is_alert (Print_alert d) = True"
| "is_alert (Telegram_post d) = True"
| "is_alert _ = False"

definition alerts :: "event list \<Rightarrow> event list" where
  "alerts tr = filter is_alert tr"

text \<open>The mints for which the metadata endpoint was called, in order.\<close>

fun looked_up :: "event \<Rightarrow> string list" where
  "looked_up (Meta_lookup m) = [m]"
| "looked_up _ = []"

definition lookups :: "event list \<Rightarrow> string list" where
  "lookups tr = concat (map looked_up tr)"

text \<open>A run of calls of \<open>fetch_token_metadata\<close>, one after the other.\<close>

definition resolve_all :: "env \<Rightarrow> string list \<Rightarrow> state \<Rightarrow> state" where
  "resolve_all en ms st = fold (\<lambda>m s. snd (fetch_token_metadata en m s)) ms st"

text \<open>
  The mint \<open>m\<close> is cached with the value \<open>v\<close>, and the metadata endpoint has been
  called \<open>n\<close> times for it so far.
\<close>

definition settled :: "string \<Rightarrow> string \<times> string \<Rightarrow> nat \<Rightarrow> state \<Rightarrow> bool" where
  "settled m v n st = (token_cache st m = Some v \<and> count_list (lookups (trace st)) m = n)"

section \<open>What a metadata record offers\<close>

text \<open>
  What the lookup finds under a key of the first record of the body. The field is
  unreadable when the path to it cannot be followed (a \<open>.get\<close> on something that
  is not an object raises) or when it holds a true value that is not a string (its
  \<open>.strip()\<close> raises). It is blank when it is absent, null or otherwise false, or
  a string that is empty once stripped. Otherwise it is a text, the stripped string.
\<close>

datatype field_class = Unreadable | Blank | Text string

definition classify_field :: "json \<Rightarrow> string \<Rightarrow> field_class" where
  "classify_field meta key =
     (case meta_field meta key of
        Inl e \<Rightarrow> Unreadable
      | Inr v \<Rightarrow>
          (case v of
             JStr s \<Rightarrow> if strip s = [] then Blank else Text (strip s)
           | _ \<Rightarrow> if py_truthy v then Unreadable else Blank))"

definition text_or_unknown :: "field_class \<Rightarrow> string" where
  "text_or_unknown c = (case c of Text s \<Rightarrow> s | _ \<Rightarrow> ''unknown'')"

text \<open>
  A lookup fails when the call raises (network error, bad status, a body that is not
  JSON), when the body is not a non-empty list, or when the first record of the list
  has an unreadable name or symbol, or has neither a name nor a symbol.
\<close>

definition lookup_failed :: "exn + json \<Rightarrow> bool" where
  "lookup_failed r =
     (case r of
        Inl e \<Rightarrow> True
      | Inr data \<Rightarrow>
          (case data of
             JArr (meta # rest) \<Rightarrow>
               classify_field meta ''name'' = Unreadable
               \<or> classify_field meta ''symbol'' = Unreadable
               \<or> (classify_field meta ''name'' = Blank \<and> classify_field meta ''symbol'' = Blank)
           | _ \<Rightarrow> True))"

section \<open>The enrichment of a transfer, after the specification\<close>

text \<open>
  Follows the words of the specification (4.5), to be compared with
  \<open>extract_token_details\<close>: name and symbol are the inline fields of the transfer
  if present, the field of the \<open>token\<close> object before the field of the transfer
  itself; the identity cache is asked, with the mint of the transfer, only when the
  mint is known and the name or the symbol is still unresolved.
\<close>

definition inline_field :: "string option \<Rightarrow> string option \<Rightarrow> string" where
  "inline_field a b =
     (case a of
        Some x \<Rightarrow> if x \<noteq> [] then x
                  else (case b of Some y \<Rightarrow> if y \<noteq> [] then y else ''unknown''
                        | None \<Rightarrow> ''unknown'')
      | None \<Rightarrow> (case b of Some y \<Rightarrow> if y \<noteq> [] then y else ''unknown''
                  | None \<Rightarrow> ''unknown''))"

definition enrich_with_transfer :: "env \<Rightarrow> tx \<Rightarrow> transfer \<Rightarrow> state \<Rightarrow> (exn + details) \<times> state" where
  "enrich_with_transfer en t c st =
     (case iso_time t of
        Inl e \<Rightarrow> (Inl e, st)
      | Inr time_str \<Rightarrow>
          (let m = (case mint c of Some x \<Rightarrow> if x \<noteq> [] then x else ''unknown''
                    | None \<Rightarrow> ''unknown'');
               n = inline_field (case token c of Some ti \<Rightarrow> tk_name ti | None \<Rightarrow> None)
                     (tokenName c);
               k = inline_field (case token c of Some ti \<Rightarrow> tk_symbol ti | None \<Rightarrow> None)
                     (tokenSymbol c)
           in if m = ''unknown'' \<or> (n \<noteq> ''unknown'' \<and> k \<noteq> ''unknown'')
              then (Inr \<lparr>d_signature = signature t, d_time = time_str, d_token_name = n,
                         d_ticker = k, d_mint = m\<rparr>, st)
              else (Inr \<lparr>d_signature = signature t, d_time = time_str,
                         d_token_name = (if n = ''unknown''
                                         then fst (fst (fetch_token_metadata en m st)) else n),
                         d_ticker = (if k = ''unknown''
                                     then snd (fst (fetch_token_metadata en m st)) else k),
                         d_mint = m\<rparr>,
                    snd (fetch_token_metadata en m st))))"

section \<open>Concrete inputs\<close>

definition tx_A :: tx where
  "tx_A = \<lparr>signature = Some ''A'', timestamp = Val 100, tokenTransfers = []\<rparr>"

definition tx_B :: tx where
  "tx_B = \<lparr>signature = Some ''B'', timestamp = Val 200, tokenTransfers = []\<rparr>"

text \<open>A transaction whose timestamp is null.\<close>

definition tx_null :: tx where
  "tx_null = \<lparr>signature = Some ''N'', timestamp = Null, tokenTransfers = []\<rparr>"

definition tx_epoch :: tx where
  "tx_epoch = \<lparr>signature = Some ''E'', timestamp = Val 0, tokenTransfers = []\<rparr>"

definition cfg_ex :: config where
  "cfg_ex = \<lparr>WATCH_WALLET = ''W'', TELEGRAM_BOT_TOKEN = Some ''token'',
              TELEGRAM_CHAT_ID = Some ''chat''\<rparr>"

definition state_start :: state where
  "state_start = \<lparr>last_sig = None, state_file = None, retry_delay = 20,
                   token_cache = Map.empty, trace = []\<rparr>"

text \<open>The feed returns the same window, newest first, and every call succeeds.\<close>

definition env_ok :: env where
  "env_ok = \<lparr>fetch_result = (\<lambda>h. Inr [tx_B, tx_A]),
              post_result = (\<lambda>h d. Inr 200),
              meta_result = (\<lambda>h m. Inr (JArr []))\<rparr>"

text \<open>The Telegram call times out.\<close>

definition env_post_raises :: env where
  "env_post_raises = \<lparr>fetch_result = (\<lambda>h. Inr [tx_B, tx_A]),
                       post_result = (\<lambda>h d. Inl RequestException),
                       meta_result = (\<lambda>h m. Inr (JArr []))\<rparr>"

text \<open>Telegram answers with status 500.\<close>

definition env_post_500 :: env where
  "env_post_500 = \<lparr>fetch_result = (\<lambda>h. Inr [tx_B, tx_A]),
                    post_result = (\<lambda>h d. Inr 500),
                    meta_result = (\<lambda>h m. Inr (JArr []))\<rparr>"


text \<open>A metadata record with a symbol and no name.\<close>

definition meta_symbol_only :: json where
  "meta_symbol_only =
     JArr [JObj [(''onChainMetadata'',
             JObj [(''metadata'', JObj [(''data'', JObj [(''symbol'', JStr ''SOL'')])])])]]"

definition env_symbol_only :: env where
  "env_symbol_only = \<lparr>fetch_result = (\<lambda>h. Inr []),
                       post_result = (\<lambda>h d. Inr 200),
                       meta_result = (\<lambda>h m. Inr meta_symbol_only)\<rparr>"

text \<open>The feed returns only the transaction that is already the cursor.\<close>

definition env_only_A :: env where
  "env_only_A = \<lparr>fetch_result = (\<lambda>h. Inr [tx_A]),
                  post_result = (\<lambda>h d. Inr 200),
                  meta_result = (\<lambda>h m. Inr (JArr []))\<rparr>"

definition state_at_A :: state where
  "state_at_A = \<lparr>last_sig = Some ''A'', state_file = Some ''A'', retry_delay = 20,
                  token_cache = Map.empty, trace = []\<rparr>"



text \<open>The feed returns a window of two transactions, one with a null timestamp.\<close>

definition env_null_window :: env where
  "env_null_window = \<lparr>fetch_result = (\<lambda>h. Inr [tx_B, tx_null]),
                       post_result = (\<lambda>h d. Inr 200),
                       meta_result = (\<lambda>h m. Inr (JArr []))\<rparr>"

definition state_at_B :: state where
  "state_at_B = \<lparr>last_sig = Some ''B'', state_file = Some ''B'', retry_delay = 20,
                  token_cache = Map.empty, trace = []\<rparr>"

text \<open>The alert record of \<open>tx_A\<close>.\<close>

definition details_A :: details where
  "details_A = \<lparr>d_signature = Some ''A'', d_time = ''1970-01-01T00:01:40+00:00'',
                 d_token_name = ''unknown'', d_ticker = ''unknown'', d_mint = ''unknown''\<rparr>"

text \<open>
  Transfers between other accounts and to the watched address \<open>W\<close>, and a
  transaction that holds them.
\<close>

definition tr_other :: transfer where
  "tr_other = \<lparr>fromUserAccount = Some ''X'', toUserAccount = Some ''Y'', mint = Some ''M1'',
                token = None, tokenName = Some ''One'', tokenSymbol = Some ''ONE''\<rparr>"

definition tr_mine :: transfer where
  "tr_mine = \<lparr>fromUserAccount = Some ''X'', toUserAccount = Some ''W'', mint = Some ''M2'',
               token = None, tokenName = Some ''Two'', tokenSymbol = Some ''TWO''\<rparr>"

definition tr_mine_later :: transfer where
  "tr_mine_later = \<lparr>fromUserAccount = Some ''W'', toUserAccount = Some ''Z'', mint = Some ''M3'',
                     token = None, tokenName = Some ''Three'', tokenSymbol = Some ''THR''\<rparr>"

definition tx_T :: tx where
  "tx_T = \<lparr>signature = Some ''T'', timestamp = Val 1700000000,
            tokenTransfers = [tr_other, tr_mine, tr_mine_later]\<rparr>"

text \<open>A second watcher, for an address that no transfer of \<open>tx_T\<close> touches.\<close>

definition cfg_Q :: config where
  "cfg_Q = \<lparr>WATCH_WALLET = ''Q'', TELEGRAM_BOT_TOKEN = Some ''token'',
             TELEGRAM_CHAT_ID = Some ''chat''\<rparr>"

text \<open>
  A transfer to the watched address with a mint and no inline name or symbol, and
  a metadata record for it whose symbol is a no-break space and whose name has
  whitespace of several kinds around it.
\<close>

definition tr_bare :: transfer where
  "tr_bare = \<lparr>fromUserAccount = Some ''X'', toUserAccount = Some ''W'', mint = Some ''M4'',
               token = None, tokenName = None, tokenSymbol = None\<rparr>"

definition tx_bare :: tx where
  "tx_bare = \<lparr>signature = Some ''S'', timestamp = Absent, tokenTransfers = [tr_other, tr_bare]\<rparr>"

definition meta_spaces :: json where
  "meta_spaces =
     JArr [JObj [(''onChainMetadata'',
             JObj [(''metadata'', JObj [(''data'',
               JObj [(''name'', JStr ([CHR 0xC2, CHR 0xA0, CHR 0x20] @ ''Four''
                                      @ [CHR 0xE2, CHR 0x80, CHR 0x83, CHR 0x0A])),
                     (''symbol'', JStr [CHR 0xC2, CHR 0xA0])])])])]]"

definition env_spaces :: env where
  "env_spaces = \<lparr>fetch_result = (\<lambda>h. Inr []),
                  post_result = (\<lambda>h d. Inr 200),
                  meta_result = (\<lambda>h m. Inr meta_spaces)\<rparr>"

definition tx_far :: tx where
  "tx_far = \<lparr>signature = Some ''F'', timestamp = Val 253402300800, tokenTransfers = []\<rparr>"

section \<open>Basic facts about the state and the trace\<close>

lemma emit_fields [simp]:
  "trace (emit e st) = trace st @ [e]"
  "last_sig (emit e st) = last_sig st"
  "state_file (emit e st) = state_file st"
  "retry_delay (emit e st) = retry_delay st"
  "token_cache (emit e st) = token_cache st"
  by (simp_all add: emit_def)

lemma save_fields [simp]:
  "trace (save_last_signature s st) = trace st @ [Save s]"
  "last_sig (save_last_signature s st) = last_sig st"
  "state_file (save_last_signature s st) = s"
  "retry_delay (save_last_signature s st) = retry_delay st"
  "token_cache (save_last_signature s st) = token_cache st"
  by (simp_all add: save_last_signature_def)

lemma cache_put_fields [simp]:
  "trace (cache_put m v st) = trace st"
  "last_sig (cache_put m v st) = last_sig st"
  "state_file (cache_put m v st) = state_file st"
  "retry_delay (cache_put m v st) = retry_delay st"
  "token_cache (cache_put m v st) = (token_cache st)(m \<mapsto> v)"
  by (simp_all add: cache_put_def)

lemma saves_append [simp]: "saves (xs @ ys) = saves xs @ saves ys"
  by (simp add: saves_def)

lemma saves_simps [simp]: "saves [] = []" "saves (e # tr) = saved e @ saves tr"
  by (simp_all add: saves_def)

lemma alerts_append [simp]: "alerts (xs @ ys) = alerts xs @ alerts ys"
  by (simp add: alerts_def)

lemma alerts_simps [simp]:
  "alerts [] = []" "alerts (e # tr) = (if is_alert e then e # alerts tr else alerts tr)"
  by (simp_all add: alerts_def)

lemma lookups_append [simp]: "lookups (xs @ ys) = lookups xs @ lookups ys"
  by (simp add: lookups_def)

lemma lookups_simps [simp]: "lookups [] = []" "lookups (e # tr) = looked_up e @ lookups tr"
  by (simp_all add: lookups_def)

text \<open>What one call of the metadata lookup leaves unchanged.\<close>

lemma fetch_token_metadata_frame:
  "last_sig (snd (fetch_token_metadata en m st)) = last_sig st"
  "state_file (snd (fetch_token_metadata en m st)) = state_file st"
  "retry_delay (snd (fetch_token_metadata en m st)) = retry_delay st"
  "saves (trace (snd (fetch_token_metadata en m st))) = saves (trace st)"
  "alerts (trace (snd (fetch_token_metadata en m st))) = alerts (trace st)"
  by (simp_all add: fetch_token_metadata_def split: option.splits sum.splits)

lemma extract_token_details_state:
  "snd (extract_token_details cfg en t st) = st
   \<or> (\<exists>m. snd (extract_token_details cfg en t st) = snd (fetch_token_metadata en m st))"
  by (auto simp add: extract_token_details_def case_prod_beta split: sum.splits)

lemma extract_token_details_frame:
  "last_sig (snd (extract_token_details cfg en t st)) = last_sig st"
  "state_file (snd (extract_token_details cfg en t st)) = state_file st"
  "retry_delay (snd (extract_token_details cfg en t st)) = retry_delay st"
  "saves (trace (snd (extract_token_details cfg en t st))) = saves (trace st)"
  "alerts (trace (snd (extract_token_details cfg en t st))) = alerts (trace st)"
  using extract_token_details_state [of cfg en t st]
  by (auto simp add: fetch_token_metadata_frame)

lemma send_telegram_text_frame:
  "last_sig (snd (send_telegram_text cfg en d st)) = last_sig st"
  "state_file (snd (send_telegram_text cfg en d st)) = state_file st"
  "retry_delay (snd (send_telegram_text cfg en d st)) = retry_delay st"
  "saves (trace (snd (send_telegram_text cfg en d st))) = saves (trace st)"
  "token_cache (snd (send_telegram_text cfg en d st)) = token_cache st"
  by (simp_all add: send_telegram_text_def split: sum.splits)

lemma alert_loop_saves:
  "\<exists>k\<le>length batch. saves (trace (snd (alert_loop cfg en batch st)))
        = saves (trace st) @ map signature (take k batch)"
proof (induction batch arbitrary: st)
  case Nil
  then show ?case by simp
next
  case (Cons t rest)
  obtain r st1 where ex: "extract_token_details cfg en t st = (r, st1)"
    by (cases "extract_token_details cfg en t st")
  have s1: "saves (trace st1) = saves (trace st)"
    using extract_token_details_frame(4) [of cfg en t st] ex by simp
  show ?case
  proof (cases r)
    case (Inl e)
    then have "saves (trace (snd (alert_loop cfg en (t # rest) st))) = saves (trace st) @ map signature (take 0 (t # rest))"
      using ex s1 by simp
    then show ?thesis by blast
  next
    case (Inr d)
    obtain x st2 where se: "send_telegram_text cfg en d (emit (Print_alert d) st1) = (x, st2)"
      by (cases "send_telegram_text cfg en d (emit (Print_alert d) st1)")
    have s2: "saves (trace st2) = saves (trace st)"
      using send_telegram_text_frame(4) [of cfg en d "emit (Print_alert d) st1"] se s1 by simp
    show ?thesis
    proof (cases x)
      case (Some e)
      then have "saves (trace (snd (alert_loop cfg en (t # rest) st))) = saves (trace st) @ map signature (take 0 (t # rest))"
        using ex Inr se s2 by simp
      then show ?thesis by blast
    next
      case None
      let ?st3 = "save_last_signature (signature t) (st2\<lparr>last_sig := signature t\<rparr>)"
      obtain k where k: "k \<le> length rest"
        "saves (trace (snd (alert_loop cfg en rest ?st3))) = saves (trace ?st3) @ map signature (take k rest)"
        using Cons.IH [of ?st3] by blast
      have "saves (trace (snd (alert_loop cfg en (t # rest) st)))
          = saves (trace st) @ map signature (take (Suc k) (t # rest))"
        using ex Inr se None k(2) s2 by simp
      moreover have "Suc k \<le> length (t # rest)" using k(1) by simp
      ultimately show ?thesis by blast
    qed
  qed
qed

section \<open>Facts about the novelty filter and the saves of a cycle\<close>

lemma ts_key_None: "ts_key t = None \<longleftrightarrow> timestamp t = Null"
  by (simp add: ts_key_def split: jfield.splits)

lemma txs_sorted_Inr: "txs_sorted W = Inr S \<Longrightarrow> S = sort_key ts_key W"
  by (simp add: txs_sorted_def split: if_splits)

lemma txs_sorted_Inl:
  "txs_sorted W = Inl e \<longleftrightarrow> e = OtherException \<and> 2 \<le> length W \<and> (\<exists>t\<in>set W. timestamp t = Null)"
  by (auto simp add: txs_sorted_def ts_key_None)

lemma txs_sorted_cases:
  "txs_sorted W = Inl OtherException \<or> txs_sorted W = Inr (sort_key ts_key W)"
  by (simp add: txs_sorted_def)

lemma select_new_Inr:
  "select_new W c = Inr B \<longleftrightarrow> txs_sorted W = Inr (sort_key ts_key W) \<and> B = new_batch (sort_key ts_key W) c"
  using txs_sorted_cases [of W] by (auto simp add: select_new_def)

lemma sorted_filter_key: "sorted (map f xs) \<Longrightarrow> sorted (map f (filter P xs))"
  by (induction xs) auto

lemma sorted_new_batch: "sorted (map ts_key S) \<Longrightarrow> sorted (map ts_key (new_batch S c))"
  by (simp add: new_batch_def sorted_filter_key)

lemma set_new_batch: "set (new_batch S c) \<subseteq> set S"
  by (auto simp add: new_batch_def)

lemma first_run_save_saves:
  "saves (trace (first_run_save S st)) = saves (trace st)
   \<or> (S \<noteq> [] \<and> saves (trace (first_run_save S st)) = saves (trace st) @ [signature (last S)])"
  by (simp add: first_run_save_def Let_def)

lemma first_run_save_alerts: "alerts (trace (first_run_save S st)) = alerts (trace st)"
  by (simp add: first_run_save_def Let_def)

lemma handle_exn_saves: "saves (trace (handle_exn e st)) = saves (trace st)"
  by (simp add: handle_exn_def split: exn.splits)

lemma handle_exn_alerts: "alerts (trace (handle_exn e st)) = alerts (trace st)"
  by (simp add: handle_exn_def split: exn.splits)

lemma sorted_take_key: "sorted (map f xs) \<Longrightarrow> sorted (map f (take k xs))"
  by (simp add: sorted_wrt_take flip: take_map)

lemma sorted_le_last: "sorted (map f S) \<Longrightarrow> x \<in> set S \<Longrightarrow> f x \<le> f (last S)"
  by (induction S) auto

lemma sorted_snoc_last:
  assumes "sorted (map f S)" and "set ps \<subseteq> set S" and "S \<noteq> []" and "sorted (map f ps)"
  shows "sorted (map f (ps @ [last S]))"
proof -
  have "\<forall>x\<in>set ps. f x \<le> f (last S)"
    using assms(1,2) sorted_le_last [of f S] by blast
  then show ?thesis using assms(4) by (simp add: sorted_append)
qed

lemma cycle_savesI:
  assumes "saves (trace (poll_cycle cfg en st)) = saves (trace st) @ map signature ps"
    and "sorted (map ts_key ps)"
    and "case fetch_result en (trace st) of Inl e \<Rightarrow> ps = [] | Inr W \<Rightarrow> set ps \<subseteq> set W"
  shows "\<exists>ps. saves (trace (poll_cycle cfg en st)) = saves (trace st) @ map signature ps
        \<and> sorted (map ts_key ps)
        \<and> (case fetch_result en (trace st) of
             Inl e \<Rightarrow> ps = []
           | Inr W \<Rightarrow> set ps \<subseteq> set W)"
  using assms by blast

lemma new_batch_Nil_iff:
  "c \<noteq> [] \<Longrightarrow> new_batch S (Some c) = [] \<longleftrightarrow> (\<forall>t\<in>set S. signature t = Some c)"
  by (auto simp add: new_batch_def truthy_def filter_empty_conv)

lemma poll_cycle_sort_raises:
  assumes "fetch_result en (trace st) = Inr W" and "txs_sorted W = Inl e"
  shows "poll_cycle cfg en st = handle_exn e st"
proof -
  have "W \<noteq> []" using assms(2) by (auto simp add: txs_sorted_Inl)
  then show ?thesis using assms by (simp add: poll_cycle_def try_body_def)
qed

text \<open>
  The selection for a window that the sort accepts, without a cursor (absent, or
  empty, which the loop treats alike): every transaction of the window, sorted by
  timestamp with an absent timestamp as 0, transactions of equal timestamp in feed
  order, and no transaction with a positive timestamp before one without a
  timestamp.
\<close>

lemma select_new_without_cursor:
  assumes "\<not> truthy c" and "txs_sorted W = Inr S"
  shows "select_new W c = Inr S
       \<and> mset S = mset W
       \<and> sorted (map ts_key S)
       \<and> (\<forall>k. filter (\<lambda>t. ts_key t = k) S = filter (\<lambda>t. ts_key t = k) W)
       \<and> (\<forall>i j. i < j \<and> j < length S \<and> timestamp (S ! j) = Absent \<longrightarrow> ts_key (S ! i) \<le> Some 0)"
proof -
  have S: "S = sort_key ts_key W" using assms(2) by (rule txs_sorted_Inr)
  have sel: "select_new W c = Inr S"
    using assms by (simp add: select_new_def new_batch_def)
  have srt: "sorted (map ts_key S)" unfolding S by simp
  have first: "ts_key (S ! i) \<le> Some 0" if "i < j" "j < length S" "timestamp (S ! j) = Absent" for i j
  proof -
    have "map ts_key S ! i \<le> map ts_key S ! j"
      using srt that by (intro sorted_nth_mono) auto
    moreover have "ts_key (S ! j) = Some 0"
      using that(3) by (simp add: ts_key_def)
    ultimately show ?thesis using that by simp
  qed
  have "\<forall>i j. i < j \<and> j < length S \<and> timestamp (S ! j) = Absent \<longrightarrow> ts_key (S ! i) \<le> Some 0"
    using first by blast
  moreover have "mset S = mset W" unfolding S by simp
  moreover have "\<forall>k. filter (\<lambda>t. ts_key t = k) S = filter (\<lambda>t. ts_key t = k) W"
    unfolding S by (simp add: sort_key_stable)
  ultimately show ?thesis using sel srt by blast
qed

text \<open>
  The selection for a window that the sort accepts, with a cursor that is not
  empty: the sorted window without the transactions that carry the cursor's
  signature, the others in sorted order and in feed order among equal timestamps.
\<close>

lemma select_new_with_cursor:
  assumes "c \<noteq> []" and "txs_sorted W = Inr S"
  shows "select_new W (Some c) = Inr (filter (\<lambda>t. signature t \<noteq> Some c) S)
       \<and> mset (filter (\<lambda>t. signature t \<noteq> Some c) S)
           = filter_mset (\<lambda>t. signature t \<noteq> Some c) (mset W)
       \<and> sorted (map ts_key (filter (\<lambda>t. signature t \<noteq> Some c) S))
       \<and> (\<forall>k. filter (\<lambda>t. ts_key t = k) (filter (\<lambda>t. signature t \<noteq> Some c) S)
              = filter (\<lambda>t. ts_key t = k \<and> signature t \<noteq> Some c) W)"
proof -
  have S: "S = sort_key ts_key W" using assms(2) by (rule txs_sorted_Inr)
  have sel: "select_new W (Some c) = Inr (filter (\<lambda>t. signature t \<noteq> Some c) S)"
    using assms by (simp add: select_new_def new_batch_def truthy_def)
  have st: "filter (\<lambda>t. ts_key t = k) (filter (\<lambda>t. signature t \<noteq> Some c) S)
          = filter (\<lambda>t. ts_key t = k \<and> signature t \<noteq> Some c) W" for k
  proof -
    have "filter (\<lambda>t. ts_key t = k) (filter (\<lambda>t. signature t \<noteq> Some c) (sort_key ts_key W))
        = filter (\<lambda>t. signature t \<noteq> Some c) (filter (\<lambda>t. ts_key t = k) (sort_key ts_key W))"
      by (simp add: conj_commute)
    also have "\<dots> = filter (\<lambda>t. signature t \<noteq> Some c) (filter (\<lambda>t. ts_key t = k) W)"
      by (simp only: sort_key_stable)
    finally show ?thesis unfolding S by (simp add: conj_commute)
  qed
  have "sorted (map ts_key (filter (\<lambda>t. signature t \<noteq> Some c) S))"
    unfolding S by (simp add: sorted_filter_key)
  moreover have "mset (filter (\<lambda>t. signature t \<noteq> Some c) S)
           = filter_mset (\<lambda>t. signature t \<noteq> Some c) (mset W)"
    unfolding S by simp
  ultimately show ?thesis using sel st by blast
qed

section \<open>Facts about the backoff\<close>








section \<open>Facts about the token cache\<close>

lemma fetch_token_metadata_hit:
  "token_cache st m = Some v \<Longrightarrow> fetch_token_metadata en m st = (v, st)"
  by (simp add: fetch_token_metadata_def)

lemma fetch_token_metadata_caches:
  "token_cache (snd (fetch_token_metadata en m st)) m = Some (fst (fetch_token_metadata en m st))"
  by (simp add: fetch_token_metadata_def split: option.splits sum.splits)

lemma fetch_token_metadata_lookups:
  "lookups (trace (snd (fetch_token_metadata en m st)))
     = lookups (trace st) @ (if token_cache st m = None then [m] else [])"
  by (simp add: fetch_token_metadata_def split: option.splits sum.splits)

lemma fetch_token_metadata_other:
  "m' \<noteq> m \<Longrightarrow> token_cache (snd (fetch_token_metadata en m' st)) m = token_cache st m"
  by (simp add: fetch_token_metadata_def split: option.splits sum.splits)

lemma settled_fetch_token_metadata:
  assumes "settled m v n st"
  shows "settled m v n (snd (fetch_token_metadata en m' st))"
proof (cases "m' = m")
  case True
  then show ?thesis
    using assms fetch_token_metadata_hit [of st m v en] by (simp add: settled_def)
next
  case False
  then show ?thesis
    using assms
    by (simp add: settled_def fetch_token_metadata_other fetch_token_metadata_lookups)
qed

lemma settled_fields [simp]:
  "settled m v n (st\<lparr>last_sig := x\<rparr>) = settled m v n st"
  "settled m v n (st\<lparr>retry_delay := d\<rparr>) = settled m v n st"
  "settled m v n (st\<lparr>state_file := y\<rparr>) = settled m v n st"
  by (simp_all add: settled_def)

lemma settled_emit:
  "looked_up e = [] \<Longrightarrow> settled m v n (emit e st) = settled m v n st"
  by (simp add: settled_def)

lemma settled_save [simp]:
  "settled m v n (save_last_signature s st) = settled m v n st"
  by (simp add: settled_def)

lemma settled_extract_token_details:
  "settled m v n st \<Longrightarrow> settled m v n (snd (extract_token_details cfg en t st))"
  using extract_token_details_state [of cfg en t st]
  by (auto simp add: settled_fetch_token_metadata)

lemma settled_send_telegram_text:
  "settled m v n st \<Longrightarrow> settled m v n (snd (send_telegram_text cfg en d st))"
  by (simp add: send_telegram_text_def settled_emit split: sum.splits)

lemma settled_alert_loop:
  "settled m v n st \<Longrightarrow> settled m v n (snd (alert_loop cfg en batch st))"
proof (induction batch arbitrary: st)
  case Nil
  then show ?case by simp
next
  case (Cons t rest)
  obtain r st1 where ex: "extract_token_details cfg en t st = (r, st1)"
    by (cases "extract_token_details cfg en t st")
  have s1: "settled m v n st1"
    using settled_extract_token_details [OF Cons.prems, of cfg en t] ex by simp
  show ?case
  proof (cases r)
    case (Inl e)
    then show ?thesis using ex s1 by simp
  next
    case (Inr d)
    obtain x st2 where se: "send_telegram_text cfg en d (emit (Print_alert d) st1) = (x, st2)"
      by (cases "send_telegram_text cfg en d (emit (Print_alert d) st1)")
    have "settled m v n (emit (Print_alert d) st1)"
      using s1 by (simp add: settled_emit)
    then have s2: "settled m v n st2"
      using settled_send_telegram_text [of m v n "emit (Print_alert d) st1" cfg en d] se by simp
    show ?thesis
    proof (cases x)
      case (Some e)
      then show ?thesis using ex Inr se s2 by simp
    next
      case None
      have "settled m v n (save_last_signature (signature t) (st2\<lparr>last_sig := signature t\<rparr>))"
        using s2 by simp
      then show ?thesis
        using ex Inr se None Cons.IH by simp
    qed
  qed
qed

lemma settled_first_run_save:
  "settled m v n st \<Longrightarrow> settled m v n (first_run_save S st)"
  by (simp add: first_run_save_def Let_def)

lemma settled_handle_exn:
  "settled m v n st \<Longrightarrow> settled m v n (handle_exn e st)"
  by (simp add: handle_exn_def settled_emit split: exn.splits)

lemma settled_try_body:
  assumes "settled m v n st"
  shows "settled m v n (snd (try_body cfg en st))"
proof (cases "fetch_result en (trace st)")
  case (Inl e)
  then show ?thesis using assms by (simp add: try_body_def)
next
  case (Inr W)
  show ?thesis
  proof (cases "txs_sorted W")
    case (Inl e)
    then show ?thesis using Inr assms by (simp add: try_body_def settled_emit)
  next
    case S: (Inr S)
    obtain x st1 where al: "alert_loop cfg en (new_batch S (last_sig st)) st = (x, st1)"
      by (cases "alert_loop cfg en (new_batch S (last_sig st)) st")
    have s1: "settled m v n st1"
      using settled_alert_loop [OF assms, of cfg en "new_batch S (last_sig st)"] al by simp
    show ?thesis
      using Inr S al s1 assms
      by (cases x) (simp_all add: try_body_def settled_first_run_save settled_emit)
  qed
qed

lemma settled_poll_cycle:
  assumes "settled m v n st"
  shows "settled m v n (poll_cycle cfg en st)"
proof -
  obtain x st1 where tb: "try_body cfg en st = (x, st1)"
    by (cases "try_body cfg en st")
  have "settled m v n st1"
    using settled_try_body [OF assms, of cfg en] tb by simp
  then show ?thesis
    using tb by (cases x) (simp_all add: poll_cycle_def settled_handle_exn)
qed

lemma settled_poll_cycles:
  "settled m v n st \<Longrightarrow> settled m v n (poll_cycles cfg en k st)"
  by (induction k arbitrary: st) (simp_all add: settled_poll_cycle)

lemma settled_resolve_all:
  "settled m v n st \<Longrightarrow> settled m v n (resolve_all en ms st)"
  unfolding resolve_all_def
  by (induction ms arbitrary: st) (simp_all add: settled_fetch_token_metadata)

section \<open>Facts about the metadata lookup\<close>

lemma ws_prefix_Nil: "ws_prefix pats [] = 0"
  by (auto simp add: ws_prefix_def find_Some_iff split: option.splits)

lemma strip_left_Nil: "strip_left pats [] = []"
  by (subst strip_left.simps) (simp add: ws_prefix_Nil)

lemma strip_Nil: "strip [] = []"
  by (simp add: strip_def strip_left_Nil)

text \<open>
  Whitespace of every kind goes, at both ends, and a character whose encoding ends
  in the byte A0 (here U+00E0) stays.
\<close>

lemma strip_examples:
  "strip ([CHR 0xC2, CHR 0xA0, CHR 0x20] @ ''SOL'' @ [CHR 0xE2, CHR 0x80, CHR 0x83, CHR 0x0A]) = ''SOL''"
  "strip [CHR 0xC2, CHR 0xA0] = []"
  "strip ([CHR 0xE3, CHR 0x80, CHR 0x80] @ ''a b'' @ [CHR 0xC2, CHR 0x85]) = ''a b''"
  "strip ([CHR 0xC3, CHR 0xA0] @ ''x'' @ [CHR 0xC3, CHR 0xA0]) = [CHR 0xC3, CHR 0xA0] @ ''x'' @ [CHR 0xC3, CHR 0xA0]"
  by code_simp+

lemma meta_field_alike:
  "meta_field meta k = Inr v \<Longrightarrow> \<exists>w. meta_field meta k' = Inr w"
  by (auto simp add: meta_field_def then_do_def dict_get_def split: sum.splits json.splits)

lemma meta_field_Inl: "meta_field meta k = Inl e \<Longrightarrow> e = OtherException"
  by (auto simp add: meta_field_def then_do_def dict_get_def split: sum.splits json.splits)

lemma strip_or_unknown:
  assumes "meta_field meta key = Inr v"
  shows "then_do (strip_if_truthy v) (\<lambda>s. Inr (or_unknown s))
       = (case classify_field meta key of
            Unreadable \<Rightarrow> Inl OtherException
          | Blank \<Rightarrow> Inr ''unknown''
          | Text s \<Rightarrow> Inr s)"
  using assms
  by (cases v)
     (simp_all add: classify_field_def strip_if_truthy_def then_do_def or_unknown_def strip_Nil)

lemma classify_field_Inl: "meta_field meta key = Inl e \<Longrightarrow> classify_field meta key = Unreadable"
  by (simp add: classify_field_def)

lemma meta_try_record:
  "meta_try (Inr (JArr (meta # rest)))
     = (if classify_field meta ''name'' = Unreadable \<or> classify_field meta ''symbol'' = Unreadable
        then Inl OtherException
        else Inr (Some (text_or_unknown (classify_field meta ''name''),
                        text_or_unknown (classify_field meta ''symbol''))))"
proof (cases "meta_field meta ''name''")
  case (Inl e)
  then show ?thesis
    using meta_field_Inl [OF Inl]
    by (simp add: meta_try_def then_do_def classify_field_Inl)
next
  case nm: (Inr a)
  obtain b where sy: "meta_field meta ''symbol'' = Inr b"
    using meta_field_alike [OF nm] by blast
  have A: "then_do (strip_if_truthy a) (\<lambda>s. Inr (or_unknown s))
       = (case classify_field meta ''name'' of
            Unreadable \<Rightarrow> Inl OtherException | Blank \<Rightarrow> Inr ''unknown'' | Text s \<Rightarrow> Inr s)"
    using nm by (rule strip_or_unknown)
  have B: "then_do (strip_if_truthy b) (\<lambda>s. Inr (or_unknown s))
       = (case classify_field meta ''symbol'' of
            Unreadable \<Rightarrow> Inl OtherException | Blank \<Rightarrow> Inr ''unknown'' | Text s \<Rightarrow> Inr s)"
    using sy by (rule strip_or_unknown)
  have raise: "strip_if_truthy j = Inl e \<Longrightarrow> e = OtherException" for j e
    by (auto simp add: strip_if_truthy_def split: if_splits json.splits)
  show ?thesis
    using A B nm sy raise
    by (cases "strip_if_truthy a"; cases "strip_if_truthy b";
        cases "classify_field meta ''name''"; cases "classify_field meta ''symbol''")
       (auto simp add: meta_try_def then_do_def text_or_unknown_def)
qed

lemma meta_try_not_a_record:
  "\<not> (\<exists>meta rest. data = JArr (meta # rest)) \<Longrightarrow> meta_try (Inr data) = Inr None"
  by (auto simp add: meta_try_def then_do_def split: json.splits list.splits)

lemma fetch_token_metadata_miss:
  assumes "token_cache st m = None"
  shows "fst (fetch_token_metadata en m st)
       = (case meta_try (meta_result en (trace st) m) of
            Inr (Some v) \<Rightarrow> v
          | _ \<Rightarrow> (''unknown'', ''unknown''))"
  using assms by (simp add: fetch_token_metadata_def split: sum.splits option.splits)

section \<open>Facts about the extraction of token details\<close>

lemma find_first_match:
  "P c \<Longrightarrow> \<forall>u\<in>set pre. \<not> P u \<Longrightarrow> find P (pre @ c # post) = Some c"
  by (induction pre) simp_all

lemma find_no_match: "\<forall>u\<in>set xs. \<not> P u \<Longrightarrow> find P xs = None"
  by (induction xs) simp_all

lemma select_candidate_first_match:
  assumes "matches w c" and "\<forall>u\<in>set pre. \<not> matches w u"
  shows "select_candidate w (pre @ c # post) = Some c"
  using find_first_match [of "matches w" c pre post] assms by (simp add: select_candidate_def)

lemma select_candidate_fallback:
  assumes "ts \<noteq> []" and "\<forall>u\<in>set ts. \<not> matches w u"
  shows "select_candidate w ts = Some (hd ts)"
  using find_no_match [of ts "matches w"] assms
  by (simp add: select_candidate_def split: list.splits)

lemma py_or_inline_field: "py_or a (py_or b ''unknown'') = inline_field a b"
  by (simp add: py_or_def inline_field_def split: option.splits)

lemma extract_token_details_selected:
  assumes "select_candidate (WATCH_WALLET cfg) (tokenTransfers t) = Some c"
  shows "extract_token_details cfg en t st = enrich_with_transfer en t c st"
proof (cases "iso_time t")
  case (Inl e)
  then show ?thesis by (simp add: extract_token_details_def enrich_with_transfer_def)
next
  case (Inr s)
  have m: "py_or (mint c) ''unknown''
      = (case mint c of Some x \<Rightarrow> if x \<noteq> [] then x else ''unknown'' | None \<Rightarrow> ''unknown'')"
    by (simp add: py_or_def split: option.splits)
  have ti: "tk_name (case token c of None \<Rightarrow> \<lparr>tk_name = None, tk_symbol = None\<rparr> | Some ti \<Rightarrow> ti)
        = (case token c of Some ti \<Rightarrow> tk_name ti | None \<Rightarrow> None)"
      "tk_symbol (case token c of None \<Rightarrow> \<lparr>tk_name = None, tk_symbol = None\<rparr> | Some ti \<Rightarrow> ti)
        = (case token c of Some ti \<Rightarrow> tk_symbol ti | None \<Rightarrow> None)"
    by (simp_all split: option.splits)
  have cf: "candidate_fields (Some c)
      = ((case mint c of Some x \<Rightarrow> if x \<noteq> [] then x else ''unknown'' | None \<Rightarrow> ''unknown''),
         inline_field (case token c of Some ti \<Rightarrow> tk_name ti | None \<Rightarrow> None) (tokenName c),
         inline_field (case token c of Some ti \<Rightarrow> tk_symbol ti | None \<Rightarrow> None) (tokenSymbol c))"
    by (simp add: candidate_fields_def Let_def m ti py_or_inline_field)
  show ?thesis
    unfolding extract_token_details_def enrich_with_transfer_def assms cf Inr
    by (auto simp add: Let_def case_prod_beta)
qed

lemma extract_token_details_no_transfers:
  assumes "tokenTransfers t = []"
  shows "extract_token_details cfg en t st
       = (case iso_time t of
            Inl e \<Rightarrow> (Inl e, st)
          | Inr s \<Rightarrow> (Inr \<lparr>d_signature = signature t, d_time = s, d_token_name = ''unknown'',
                            d_ticker = ''unknown'', d_mint = ''unknown''\<rparr>, st))"
  using assms
  by (simp add: extract_token_details_def select_candidate_def candidate_fields_def
      split: sum.splits)

lemma ts_to_iso_in_range:
  assumes "- 62135596800 \<le> ts" and "ts \<le> 253402300799"
  shows "\<exists>s. ts_to_iso ts = Inr s \<and> length s = 25 \<and> s ! 4 = CHR ''-'' \<and> s ! 7 = CHR ''-''
            \<and> s ! 10 = CHR ''T'' \<and> s ! 13 = CHR '':'' \<and> s ! 16 = CHR '':''
            \<and> drop 19 s = ''+00:00''"
  using assms
  by (simp add: ts_to_iso_def Let_def case_prod_beta pad2_def pad4_def nth_append)

lemma ts_to_iso_out_of_range:
  "ts < - 62135596800 \<or> 253402300799 < ts \<Longrightarrow> ts_to_iso ts = Inl OtherException"
  by (simp add: ts_to_iso_def)

lemma iso_time_unknown:
  "timestamp t = Absent \<or> timestamp t = Null \<or> timestamp t = Val 0 \<Longrightarrow> iso_time t = Inr ''unknown''"
  by (auto simp add: iso_time_def)

lemma extract_token_details_time:
  assumes "iso_time t = Inr s"
  shows "\<exists>d. fst (extract_token_details cfg en t st) = Inr d \<and> d_time d = s"
  using assms
  by (simp add: extract_token_details_def case_prod_beta)

text \<open>The rendering at leap days, at the ends of years and at both ends of its range.\<close>

lemma ts_to_iso_examples:
  "ts_to_iso 951782400 = Inr ''2000-02-29T00:00:00+00:00''"
  "ts_to_iso 951868800 = Inr ''2000-03-01T00:00:00+00:00''"
  "ts_to_iso 4107542399 = Inr ''2100-02-28T23:59:59+00:00''"
  "ts_to_iso 4107542400 = Inr ''2100-03-01T00:00:00+00:00''"
  "ts_to_iso (- 1) = Inr ''1969-12-31T23:59:59+00:00''"
  "ts_to_iso (- 62135596800) = Inr ''0001-01-01T00:00:00+00:00''"
  "ts_to_iso 253402300799 = Inr ''9999-12-31T23:59:59+00:00''"
  "ts_to_iso 1709164800 = Inr ''2024-02-29T00:00:00+00:00''"
  "ts_to_iso 1735689599 = Inr ''2024-12-31T23:59:59+00:00''"
  by code_simp+

section \<open>The claims\<close>

text \<open>
  C1. Claimed: when the cursor is the signature of the newest transaction of the
  window, the selection of new transactions is empty and the cycle emits no alert.
  The loop only drops the transactions that carry the cursor's signature, so this
  holds exactly when every transaction of the window carries it (a window holding
  only the cursor's transaction, for one): for a non-empty cursor \<open>c\<close> the selection
  is the empty list if and only if the sort accepts the window and every
  transaction of the window has signature \<open>c\<close>, and a cycle that fetches a window
  whose transactions all have signature \<open>c\<close>, with \<open>c\<close> as its cursor, emits no
  alert.
\<close>

theorem new_batch_empty_iff:
  assumes "c \<noteq> []"
  shows "(select_new W (Some c) = Inr []
            \<longleftrightarrow> (\<exists>S. txs_sorted W = Inr S) \<and> (\<forall>t\<in>set W. signature t = Some c))
       \<and> ((\<forall>t\<in>set W. signature t = Some c) \<and> fetch_result en (trace st) = Inr W
            \<and> last_sig st = Some c
          \<longrightarrow> alerts (trace (poll_cycle cfg en st)) = alerts (trace st))"
proof (intro conjI impI)
  have "new_batch (sort_key ts_key W) (Some c) = [] \<longleftrightarrow> (\<forall>t\<in>set W. signature t = Some c)"
    using new_batch_Nil_iff [OF assms, of "sort_key ts_key W"] by simp
  then show "select_new W (Some c) = Inr []
            \<longleftrightarrow> (\<exists>S. txs_sorted W = Inr S) \<and> (\<forall>t\<in>set W. signature t = Some c)"
    using txs_sorted_cases [of W] by (auto simp add: select_new_Inr)
next
  assume a: "(\<forall>t\<in>set W. signature t = Some c) \<and> fetch_result en (trace st) = Inr W
            \<and> last_sig st = Some c"
  show "alerts (trace (poll_cycle cfg en st)) = alerts (trace st)"
  proof (cases "txs_sorted W")
    case (Inl e)
    then show ?thesis
      using a poll_cycle_sort_raises [of en st W e cfg] by (simp add: handle_exn_alerts)
  next
    case (Inr S)
    then have "set S = set W" using txs_sorted_Inr [of W S] by simp
    then have "new_batch S (last_sig st) = []"
      using a assms new_batch_Nil_iff [of c S] by simp
    then show ?thesis
      using a Inr by (simp add: poll_cycle_def try_body_def first_run_save_alerts)
  qed
qed

theorem new_batch_empty_iff_witness:
  "select_new [tx_A] (Some ''A'') = Inr []
   \<and> alerts (trace (poll_cycle cfg_ex env_only_A state_at_A)) = []"
proof -
  have s: "txs_sorted [tx_A] = Inr [tx_A]"
    by (simp add: txs_sorted_def)
  show ?thesis
    using new_batch_empty_iff [where c = "''A''" and W = "[tx_A]" and en = env_only_A
        and st = state_at_A and cfg = cfg_ex] s
    by (simp add: tx_A_def env_only_A_def state_at_A_def)
qed

text \<open>
  With the window B (timestamp 200), A (timestamp 100) and the cursor B, the newest
  transaction is the cursor and A is selected again.
\<close>

theorem newest_is_cursor_counterexample:
  "txs_sorted [tx_B, tx_A] = Inr [tx_A, tx_B]
   \<and> signature (last [tx_A, tx_B]) = Some ''B''
   \<and> select_new [tx_B, tx_A] (Some ''B'') = Inr [tx_A]"
  by (simp add: select_new_def new_batch_def txs_sorted_def ts_key_def truthy_def
      tx_A_def tx_B_def)

text \<open>
  C2. Claimed: over any sequence of poll cycles the saved cursor never moves to a
  transaction with a smaller timestamp. This holds inside one cycle: the values a
  cycle saves are the signatures of transactions of its window, in an order of
  non-decreasing timestamp (an absent timestamp counting as 0), and a cycle whose
  fetch fails saves nothing.
\<close>

theorem cycle_saves_ascending:
  "\<exists>ps. saves (trace (poll_cycle cfg en st)) = saves (trace st) @ map signature ps
        \<and> sorted (map ts_key ps)
        \<and> (case fetch_result en (trace st) of
             Inl e \<Rightarrow> ps = []
           | Inr W \<Rightarrow> set ps \<subseteq> set W)"
proof (cases "fetch_result en (trace st)")
  case (Inl e)
  then have "saves (trace (poll_cycle cfg en st)) = saves (trace st) @ map signature []"
    by (simp add: poll_cycle_def try_body_def handle_exn_saves)
  then show ?thesis
    by (rule cycle_savesI) (simp_all add: Inl)
next
  case (Inr W)
  show ?thesis
  proof (cases "W = []")
    case True
    then have "saves (trace (poll_cycle cfg en st)) = saves (trace st) @ map signature []"
      using Inr by (simp add: poll_cycle_def try_body_def)
    then show ?thesis
      by (rule cycle_savesI) (simp_all add: Inr)
  next
    case False
    show ?thesis
    proof (cases "txs_sorted W")
      case (Inl e)
      then have "saves (trace (poll_cycle cfg en st)) = saves (trace st) @ map signature []"
        using Inr poll_cycle_sort_raises [of en st W e cfg] by (simp add: handle_exn_saves)
      then show ?thesis
        by (rule cycle_savesI) (simp_all add: Inr)
    next
      case S: (Inr S)
      have Seq: "S = sort_key ts_key W" using S by (rule txs_sorted_Inr)
      have sortedS: "sorted (map ts_key S)" unfolding Seq by simp
      let ?B = "new_batch S (last_sig st)"
      obtain x st1 where al: "alert_loop cfg en ?B st = (x, st1)"
        by (cases "alert_loop cfg en ?B st")
      obtain k where k: "saves (trace st1) = saves (trace st) @ map signature (take k ?B)"
        using alert_loop_saves [of ?B cfg en st] al by auto
      have srt: "sorted (map ts_key (take k ?B))"
        by (simp add: sortedS sorted_new_batch sorted_take_key)
      have subS: "set (take k ?B) \<subseteq> set S"
        using set_new_batch [of S "last_sig st"] set_take_subset [of k ?B] by blast
      then have sub: "set (take k ?B) \<subseteq> set W"
        unfolding Seq by simp
      show ?thesis
      proof (cases x)
        case (Some e)
        then have "saves (trace (poll_cycle cfg en st)) = saves (trace st) @ map signature (take k ?B)"
          using Inr False S al k by (simp add: poll_cycle_def try_body_def handle_exn_saves)
        then show ?thesis
          using srt by (rule cycle_savesI) (simp add: Inr sub)
      next
        case None
        have pc: "saves (trace (poll_cycle cfg en st)) = saves (trace (first_run_save S st1))"
          using Inr False S al None by (simp add: poll_cycle_def try_body_def)
        from first_run_save_saves [of S st1] show ?thesis
        proof
          assume "saves (trace (first_run_save S st1)) = saves (trace st1)"
          then have "saves (trace (poll_cycle cfg en st)) = saves (trace st) @ map signature (take k ?B)"
            using pc k by simp
          then show ?thesis
            using srt by (rule cycle_savesI) (simp add: Inr sub)
        next
          assume a: "S \<noteq> [] \<and> saves (trace (first_run_save S st1)) = saves (trace st1) @ [signature (last S)]"
          have ne: "S \<noteq> []" using a by simp
          have s2: "sorted (map ts_key (take k ?B @ [last S]))"
            using sorted_snoc_last [OF sortedS subS ne srt] .
          have lst: "last S \<in> set W"
            using last_in_set [OF ne] unfolding Seq by simp
          have "saves (trace (poll_cycle cfg en st))
              = saves (trace st) @ map signature (take k ?B @ [last S])"
            using pc k a by simp
          then show ?thesis
            using s2 by (rule cycle_savesI) (simp add: Inr sub lst)
        qed
      qed
    qed
  qed
qed

theorem cycle_saves_ascending_witness:
  "saves (trace (poll_cycle cfg_ex env_ok state_start)) = [Some ''A'', Some ''B'']
   \<and> (\<exists>ps. [Some ''A'', Some ''B''] = map signature ps \<and> sorted (map ts_key ps)
         \<and> set ps \<subseteq> {tx_A, tx_B})"
proof -
  have s: "saves (trace (poll_cycle cfg_ex env_ok state_start)) = [Some ''A'', Some ''B'']"
    by code_simp
  show ?thesis
    using cycle_saves_ascending [of cfg_ex env_ok state_start] s
    by (simp add: env_ok_def state_start_def insert_commute)
qed

text \<open>
  Across cycles the cursor moves back: on a first run the window B, A is saved as
  A then B, and the next cycle, fetching the same window, selects A again and saves
  it after B.
\<close>

theorem cursor_moves_back_counterexample:
  "saves (trace (poll_watch_wallet cfg_ex env_ok 2 state_start))
     = [Some ''A'', Some ''B'', Some ''A'']
   \<and> ts_key tx_B = Some 200 \<and> ts_key tx_A = Some 100"
  by code_simp

text \<open>
  C3. Claimed: without a cursor, every non-empty window is returned whole, sorted by
  timestamp, a transaction without a timestamp counting as 0 and coming first. The
  sort key \<open>t.get("timestamp", 0)\<close> gives 0 only when the key is absent. For a
  timestamp that is null the key is \<open>None\<close>, and in a window of two or more
  transactions \<open>sorted\<close> raises TypeError on it: nothing is selected, and the cycle
  ends in the handler for other exceptions, with no alert for any transaction of
  the window. (\<open>extract_token_details\<close> reads the same key with a test that takes
  null as no timestamp.) For a window that the sort accepts, the claim holds: that
  is \<open>select_new_without_cursor\<close> above.
\<close>

theorem null_timestamp_raises_without_cursor:
  "timestamp tx_null = Null
   \<and> select_new [tx_B, tx_null] None = Inl OtherException
   \<and> trace (poll_cycle cfg_ex env_null_window state_start) = [Print_error, Sleep 5]"
  by code_simp

text \<open>
  C10. Claimed: for every window and every present cursor the selection is the
  sorted window without the transactions that carry the cursor's signature. As for
  C3, a window of two or more transactions one of which has a null timestamp makes
  the sort raise before the filter on line 156 is reached: with the cursor B and the
  window B, N, where N has a null timestamp, N is not selected and the cycle ends
  in the handler for other exceptions. For a window that the sort accepts and a
  cursor that is not empty, the claim holds: that is \<open>select_new_with_cursor\<close>
  above.
\<close>

theorem null_timestamp_raises_with_cursor:
  "signature tx_null = Some ''N''
   \<and> select_new [tx_B, tx_null] (Some ''B'') = Inl OtherException
   \<and> trace (poll_cycle cfg_ex env_null_window state_at_B) = [Print_error, Sleep 5]
   \<and> last_sig (poll_cycle cfg_ex env_null_window state_at_B) = Some ''B''"
  by code_simp




text \<open>
  C5. Claimed: a delivery failure is logged and swallowed, the cursor is advanced
  and saved for the transaction, and the loop goes on. This holds for a failure
  that Telegram reports with a status other than 200: the failure is printed, the
  signature of the transaction is stored in \<open>last_sig\<close> and written to the state
  file (the write being taken to succeed), and the loop continues with the rest
  of the batch. An exception raised by \<open>requests.post\<close> is not caught in
  \<open>send_telegram_text\<close>: it leaves the \<open>for\<close> loop at once, after the print of the
  alert and the attempt to post, with \<open>last_sig\<close> and the state file as they were
  before the transaction and nothing done for the rest of the batch; and an
  exception that leaves the \<open>for\<close> loop is handled by the \<open>except\<close> clause of the
  poll loop for its class.
\<close>

theorem failed_status_is_swallowed:
  assumes "extract_token_details cfg en t st = (Inr d, st1)"
    and "truthy (TELEGRAM_BOT_TOKEN cfg)" and "truthy (TELEGRAM_CHAT_ID cfg)"
  shows "(\<forall>code. post_result en (trace st1 @ [Print_alert d]) d = Inr code \<and> code \<noteq> 200
            \<longrightarrow> (\<exists>st'. alert_loop cfg en (t # rest) st = alert_loop cfg en rest st'
                   \<and> trace st' = trace st1 @ [Print_alert d, Telegram_post d,
                                               Print_telegram_failed code, Save (signature t)]
                   \<and> last_sig st' = signature t
                   \<and> load_last_signature st' = signature t))
       \<and> (\<forall>e. post_result en (trace st1 @ [Print_alert d]) d = Inl e
            \<longrightarrow> (\<exists>st'. alert_loop cfg en (t # rest) st = (Some e, st')
                   \<and> trace st' = trace st1 @ [Print_alert d, Telegram_post d]
                   \<and> last_sig st' = last_sig st
                   \<and> load_last_signature st' = load_last_signature st))
       \<and> (\<forall>st0 W S e st'. fetch_result en (trace st0) = Inr W \<and> W \<noteq> [] \<and> txs_sorted W = Inr S
              \<and> alert_loop cfg en (new_batch S (last_sig st0)) st0 = (Some e, st')
            \<longrightarrow> poll_cycle cfg en st0 = handle_exn e st')"
proof (intro conjI allI impI)
  fix code
  assume p: "post_result en (trace st1 @ [Print_alert d]) d = Inr code \<and> code \<noteq> 200"
  let ?st2 = "emit (Print_telegram_failed code) (emit (Telegram_post d) (emit (Print_alert d) st1))"
  let ?st' = "save_last_signature (signature t) (?st2\<lparr>last_sig := signature t\<rparr>)"
  have send: "send_telegram_text cfg en d (emit (Print_alert d) st1) = (None, ?st2)"
    using assms(2,3) p by (simp add: send_telegram_text_def)
  have "alert_loop cfg en (t # rest) st = alert_loop cfg en rest ?st'"
    using assms(1) send by simp
  moreover have "trace ?st' = trace st1 @ [Print_alert d, Telegram_post d,
                                      Print_telegram_failed code, Save (signature t)]"
    by simp
  moreover have "last_sig ?st' = signature t" by simp
  moreover have "load_last_signature ?st' = signature t"
    by (simp add: load_last_signature_def)
  ultimately show "\<exists>st'. alert_loop cfg en (t # rest) st = alert_loop cfg en rest st'
                   \<and> trace st' = trace st1 @ [Print_alert d, Telegram_post d,
                                               Print_telegram_failed code, Save (signature t)]
                   \<and> last_sig st' = signature t
                   \<and> load_last_signature st' = signature t"
    by blast
next
  fix e
  assume p: "post_result en (trace st1 @ [Print_alert d]) d = Inl e"
  let ?st' = "emit (Telegram_post d) (emit (Print_alert d) st1)"
  have send: "send_telegram_text cfg en d (emit (Print_alert d) st1) = (Some e, ?st')"
    using assms(2,3) p by (simp add: send_telegram_text_def)
  have fr: "last_sig st1 = last_sig st" "state_file st1 = state_file st"
    using extract_token_details_frame(1,2) [of cfg en t st] assms(1) by simp_all
  have "alert_loop cfg en (t # rest) st = (Some e, ?st')"
    using assms(1) send by simp
  moreover have "trace ?st' = trace st1 @ [Print_alert d, Telegram_post d]"
    by simp
  moreover have "last_sig ?st' = last_sig st" using fr by simp
  moreover have "load_last_signature ?st' = load_last_signature st"
    using fr by (simp add: load_last_signature_def)
  ultimately show "\<exists>st'. alert_loop cfg en (t # rest) st = (Some e, st')
                   \<and> trace st' = trace st1 @ [Print_alert d, Telegram_post d]
                   \<and> last_sig st' = last_sig st
                   \<and> load_last_signature st' = load_last_signature st"
    by blast
next
  fix st0 W S e st'
  assume "fetch_result en (trace st0) = Inr W \<and> W \<noteq> [] \<and> txs_sorted W = Inr S
              \<and> alert_loop cfg en (new_batch S (last_sig st0)) st0 = (Some e, st')"
  then show "poll_cycle cfg en st0 = handle_exn e st'"
    by (simp add: poll_cycle_def try_body_def)
qed

theorem failed_status_is_swallowed_witness:
  "(\<exists>st'. alert_loop cfg_ex env_post_500 [tx_A, tx_B] state_start
            = alert_loop cfg_ex env_post_500 [tx_B] st'
         \<and> trace st' = [Print_alert details_A, Telegram_post details_A,
                         Print_telegram_failed 500, Save (Some ''A'')]
         \<and> last_sig st' = Some ''A''
         \<and> load_last_signature st' = Some ''A'')
   \<and> (\<exists>st'. alert_loop cfg_ex env_post_raises [tx_A, tx_B] state_start = (Some RequestException, st')
         \<and> trace st' = [Print_alert details_A, Telegram_post details_A]
         \<and> last_sig st' = None
         \<and> load_last_signature st' = None
         \<and> poll_cycle cfg_ex env_post_raises state_start = handle_exn RequestException st')"
proof -
  have iso: "iso_time tx_A = Inr ''1970-01-01T00:01:40+00:00''"
    by code_simp
  have nt: "tokenTransfers tx_A = []" and sg: "signature tx_A = Some ''A''"
    by (simp_all add: tx_A_def)
  have e: "extract_token_details cfg en' tx_A state_start = (Inr details_A, state_start)" for cfg en'
    by (simp add: extract_token_details_no_transfers [OF nt] iso sg details_A_def)
  have p: "post_result env_post_500 (trace state_start @ [Print_alert details_A]) details_A = Inr 500 \<and> (500::int) \<noteq> 200"
    by (simp add: env_post_500_def)
  have q: "post_result env_post_raises (trace state_start @ [Print_alert details_A]) details_A
      = Inl RequestException"
    by (simp add: env_post_raises_def)
  have t1: "truthy (TELEGRAM_BOT_TOKEN cfg_ex)" and t2: "truthy (TELEGRAM_CHAT_ID cfg_ex)"
    by (simp_all add: cfg_ex_def truthy_def)
  have tr: "trace state_start = []"
    and ls: "last_sig state_start = None" and ld: "load_last_signature state_start = None"
    by (simp_all add: state_start_def load_last_signature_def)
  have w: "fetch_result env_post_raises (trace state_start) = Inr [tx_B, tx_A] \<and> [tx_B, tx_A] \<noteq> []
      \<and> txs_sorted [tx_B, tx_A] = Inr [tx_A, tx_B]"
    by (simp add: env_post_raises_def txs_sorted_def ts_key_def tx_A_def tx_B_def)
  have nb: "new_batch [tx_A, tx_B] (last_sig state_start) = [tx_A, tx_B]"
    by (simp add: new_batch_def ls truthy_def)
  from failed_status_is_swallowed [OF e t1 t2, of env_post_500 "[tx_B]"] p
  have 1: "\<exists>st'. alert_loop cfg_ex env_post_500 [tx_A, tx_B] state_start
            = alert_loop cfg_ex env_post_500 [tx_B] st'
         \<and> trace st' = [Print_alert details_A, Telegram_post details_A,
                         Print_telegram_failed 500, Save (Some ''A'')]
         \<and> last_sig st' = Some ''A''
         \<and> load_last_signature st' = Some ''A''"
    unfolding sg tr by simp
  from failed_status_is_swallowed [OF e t1 t2, of env_post_raises "[tx_B]"] q
  obtain st' where r: "alert_loop cfg_ex env_post_raises [tx_A, tx_B] state_start = (Some RequestException, st')"
      "trace st' = [Print_alert details_A, Telegram_post details_A]"
      "last_sig st' = None" "load_last_signature st' = None"
    unfolding tr ls ld by auto
  have al: "alert_loop cfg_ex env_post_raises (new_batch [tx_A, tx_B] (last_sig state_start)) state_start
      = (Some RequestException, st')"
    unfolding nb by (rule r(1))
  have "poll_cycle cfg_ex env_post_raises state_start = handle_exn RequestException st'"
    using conjunct2 [OF conjunct2 [OF failed_status_is_swallowed [OF e t1 t2, of env_post_raises "[tx_B]"]],
        rule_format, of state_start "[tx_B, tx_A]" "[tx_A, tx_B]" RequestException st']
      w al
    by (simp del: alert_loop.simps)
  then show ?thesis using 1 r by blast
qed

text \<open>
  The Telegram call times out on the first transaction of the batch A, B: nothing
  is saved, B is not processed, and the loop's handler sleeps 10 s.
\<close>

theorem post_raises_counterexample:
  "trace (poll_cycle cfg_ex env_post_raises state_start)
     = [Print_alert details_A, Telegram_post details_A, Print_network, Sleep 10]
   \<and> last_sig (poll_cycle cfg_ex env_post_raises state_start) = None
   \<and> load_last_signature (poll_cycle cfg_ex env_post_raises state_start) = None
   \<and> select_new [tx_B, tx_A] None = Inr [tx_A, tx_B]"
  by code_simp

text \<open>
  C6. Claimed: on a cache miss, a lookup that fails in any way (network error, empty
  result, missing name or symbol) caches and returns the pair of "unknown". This
  holds when the call raises, when the body is not a non-empty list, when the name
  or the symbol of the first record is unreadable, and when both are blank. Name
  and symbol are defaulted each on its own: when both can be read, the result has
  for each of them the stripped string if it is a text, and "unknown" if it is
  blank, so a record with a symbol and no name gives "unknown" and the symbol. In
  every case the result is cached for the mint and the endpoint is called once.
\<close>

theorem failed_lookup_gives_unknown:
  assumes "token_cache st m = None"
  shows "(lookup_failed (meta_result en (trace st) m)
            \<longrightarrow> fst (fetch_token_metadata en m st) = (''unknown'', ''unknown''))
       \<and> (\<forall>meta rest. meta_result en (trace st) m = Inr (JArr (meta # rest))
            \<and> classify_field meta ''name'' \<noteq> Unreadable
            \<and> classify_field meta ''symbol'' \<noteq> Unreadable
            \<longrightarrow> fst (fetch_token_metadata en m st)
                = (text_or_unknown (classify_field meta ''name''),
                   text_or_unknown (classify_field meta ''symbol'')))
       \<and> token_cache (snd (fetch_token_metadata en m st)) m
           = Some (fst (fetch_token_metadata en m st))
       \<and> lookups (trace (snd (fetch_token_metadata en m st))) = lookups (trace st) @ [m]"
proof (intro conjI allI impI)
  assume f: "lookup_failed (meta_result en (trace st) m)"
  show "fst (fetch_token_metadata en m st) = (''unknown'', ''unknown'')"
  proof (cases "meta_result en (trace st) m")
    case (Inl e)
    then show ?thesis
      using fetch_token_metadata_miss [OF assms, of en] by (simp add: meta_try_def then_do_def)
  next
    case (Inr data)
    show ?thesis
    proof (cases "\<exists>meta rest. data = JArr (meta # rest)")
      case False
      then show ?thesis
        using Inr fetch_token_metadata_miss [OF assms, of en] meta_try_not_a_record [of data]
        by simp
    next
      case True
      then obtain meta rest where d: "data = JArr (meta # rest)" by blast
      have "classify_field meta ''name'' = Unreadable
               \<or> classify_field meta ''symbol'' = Unreadable
               \<or> (classify_field meta ''name'' = Blank \<and> classify_field meta ''symbol'' = Blank)"
        using f Inr d by (simp add: lookup_failed_def)
      then show ?thesis
        using Inr d fetch_token_metadata_miss [OF assms, of en] meta_try_record [of meta rest]
        by (auto simp add: text_or_unknown_def)
    qed
  qed
next
  fix meta rest
  assume "meta_result en (trace st) m = Inr (JArr (meta # rest))
            \<and> classify_field meta ''name'' \<noteq> Unreadable
            \<and> classify_field meta ''symbol'' \<noteq> Unreadable"
  then show "fst (fetch_token_metadata en m st)
                = (text_or_unknown (classify_field meta ''name''),
                   text_or_unknown (classify_field meta ''symbol''))"
    using fetch_token_metadata_miss [OF assms, of en] meta_try_record [of meta rest]
    by simp
next
  show "token_cache (snd (fetch_token_metadata en m st)) m
           = Some (fst (fetch_token_metadata en m st))"
    by (rule fetch_token_metadata_caches)
next
  show "lookups (trace (snd (fetch_token_metadata en m st))) = lookups (trace st) @ [m]"
    using assms by (simp add: fetch_token_metadata_lookups)
qed

theorem failed_lookup_gives_unknown_witness:
  "fetch_token_metadata env_ok ''Mx'' state_start
     = ((''unknown'', ''unknown''), snd (fetch_token_metadata env_ok ''Mx'' state_start))
   \<and> token_cache (snd (fetch_token_metadata env_ok ''Mx'' state_start)) ''Mx''
       = Some (''unknown'', ''unknown'')
   \<and> lookups (trace (snd (fetch_token_metadata env_ok ''Mx'' state_start))) = [''Mx'']
   \<and> fst (fetch_token_metadata env_spaces ''M4'' state_start) = (''Four'', ''unknown'')"
proof -
  have h: "token_cache state_start mm = None" for mm
    by (simp add: state_start_def)
  have f: "lookup_failed (meta_result env_ok (trace state_start) ''Mx'')"
    by (simp add: lookup_failed_def env_ok_def)
  have tr: "lookups (trace state_start) = []"
    by (simp add: state_start_def)
  have r: "meta_result env_spaces (trace state_start) ''M4''
      = Inr (JArr (JObj [(''onChainMetadata'',
             JObj [(''metadata'', JObj [(''data'',
               JObj [(''name'', JStr ([CHR 0xC2, CHR 0xA0, CHR 0x20] @ ''Four''
                                      @ [CHR 0xE2, CHR 0x80, CHR 0x83, CHR 0x0A])),
                     (''symbol'', JStr [CHR 0xC2, CHR 0xA0])])])])] # []))"
    by (simp add: env_spaces_def meta_spaces_def)
  have cn: "classify_field (JObj [(''onChainMetadata'',
             JObj [(''metadata'', JObj [(''data'',
               JObj [(''name'', JStr ([CHR 0xC2, CHR 0xA0, CHR 0x20] @ ''Four''
                                      @ [CHR 0xE2, CHR 0x80, CHR 0x83, CHR 0x0A])),
                     (''symbol'', JStr [CHR 0xC2, CHR 0xA0])])])])]) ''name'' = Text ''Four''"
    by code_simp
  have cs: "classify_field (JObj [(''onChainMetadata'',
             JObj [(''metadata'', JObj [(''data'',
               JObj [(''name'', JStr ([CHR 0xC2, CHR 0xA0, CHR 0x20] @ ''Four''
                                      @ [CHR 0xE2, CHR 0x80, CHR 0x83, CHR 0x0A])),
                     (''symbol'', JStr [CHR 0xC2, CHR 0xA0])])])])]) ''symbol'' = Blank"
    by code_simp
  have 1: "fst (fetch_token_metadata env_ok ''Mx'' state_start) = (''unknown'', ''unknown'')"
    using failed_lookup_gives_unknown [OF h, of env_ok "''Mx''"] f by blast
  have 2: "token_cache (snd (fetch_token_metadata env_ok ''Mx'' state_start)) ''Mx''
       = Some (fst (fetch_token_metadata env_ok ''Mx'' state_start))"
    using failed_lookup_gives_unknown [OF h, of env_ok "''Mx''"] by blast
  have 3: "lookups (trace (snd (fetch_token_metadata env_ok ''Mx'' state_start))) = [''Mx'']"
    using failed_lookup_gives_unknown [OF h, of env_ok "''Mx''"] tr by simp
  have 4: "fst (fetch_token_metadata env_spaces ''M4'' state_start) = (''Four'', ''unknown'')"
    using conjunct1 [OF conjunct2 [OF failed_lookup_gives_unknown [OF h, of env_spaces "''M4''"]],
        rule_format, OF conjI [OF r]] cn cs
    by (simp add: text_or_unknown_def)
  show ?thesis
    using 1 2 3 4 by (simp add: prod_eq_iff)
qed

text \<open>
  A record that carries the symbol SOL and no name is cached and returned as
  ("unknown", "SOL").
\<close>

theorem symbol_without_name_counterexample:
  "classify_field (JObj [(''onChainMetadata'',
       JObj [(''metadata'', JObj [(''data'', JObj [(''symbol'', JStr ''SOL'')])])])]) ''name''
     = Blank
   \<and> token_cache state_start ''Mx'' = None
   \<and> fst (fetch_token_metadata env_symbol_only ''Mx'' state_start) = (''unknown'', ''SOL'')
   \<and> token_cache (snd (fetch_token_metadata env_symbol_only ''Mx'' state_start)) ''Mx''
       = Some (''unknown'', ''SOL'')"
  by code_simp

text \<open>
  C7. After a call of \<open>fetch_token_metadata\<close> for a mint, whatever the lookup
  answered, the mint is cached with the value returned; the call issued at most one
  lookup; and after any further calls for any mints and any number of poll cycles,
  in any environment, a call for the mint returns that value and leaves the state,
  and so the trace, as it is, and the number of lookups issued for the mint has not
  changed.
\<close>

theorem resolved_mint_is_not_looked_up_again:
  "token_cache (snd (fetch_token_metadata en m st)) m = Some (fst (fetch_token_metadata en m st))
   \<and> count_list (lookups (trace (snd (fetch_token_metadata en m st)))) m
       \<le> Suc (count_list (lookups (trace st)) m)
   \<and> fetch_token_metadata en3 m
        (poll_cycles cfg en2 n (resolve_all en1 ms (snd (fetch_token_metadata en m st))))
       = (fst (fetch_token_metadata en m st),
          poll_cycles cfg en2 n (resolve_all en1 ms (snd (fetch_token_metadata en m st))))
   \<and> count_list (lookups (trace
        (poll_cycles cfg en2 n (resolve_all en1 ms (snd (fetch_token_metadata en m st)))))) m
       = count_list (lookups (trace (snd (fetch_token_metadata en m st)))) m"
proof -
  let ?v = "fst (fetch_token_metadata en m st)"
  let ?st1 = "snd (fetch_token_metadata en m st)"
  let ?st2 = "poll_cycles cfg en2 n (resolve_all en1 ms ?st1)"
  have c: "token_cache ?st1 m = Some ?v"
    by (rule fetch_token_metadata_caches)
  have le: "count_list (lookups (trace ?st1)) m \<le> Suc (count_list (lookups (trace st)) m)"
    by (simp add: fetch_token_metadata_lookups)
  have "settled m ?v (count_list (lookups (trace ?st1)) m) ?st1"
    using c by (simp add: settled_def)
  then have "settled m ?v (count_list (lookups (trace ?st1)) m) ?st2"
    by (intro settled_poll_cycles settled_resolve_all)
  then have k: "token_cache ?st2 m = Some ?v"
    and n: "count_list (lookups (trace ?st2)) m = count_list (lookups (trace ?st1)) m"
    by (simp_all add: settled_def)
  have "fetch_token_metadata en3 m ?st2 = (?v, ?st2)"
    using k by (rule fetch_token_metadata_hit)
  then show ?thesis using c le n by blast
qed

theorem resolved_mint_is_not_looked_up_again_witness:
  "fetch_token_metadata env_symbol_only ''Mx''
       (poll_cycles cfg_ex env_ok 1 (resolve_all env_symbol_only [''My'', ''Mx'']
          (snd (fetch_token_metadata env_ok ''Mx'' state_start))))
     = ((''unknown'', ''unknown''),
        poll_cycles cfg_ex env_ok 1 (resolve_all env_symbol_only [''My'', ''Mx'']
          (snd (fetch_token_metadata env_ok ''Mx'' state_start))))
   \<and> count_list (lookups (trace
        (poll_cycles cfg_ex env_ok 1 (resolve_all env_symbol_only [''My'', ''Mx'']
          (snd (fetch_token_metadata env_ok ''Mx'' state_start)))))) ''Mx'' = 1"
proof -
  have v: "fst (fetch_token_metadata env_ok ''Mx'' state_start) = (''unknown'', ''unknown'')"
    by code_simp
  have c: "count_list (lookups (trace (snd (fetch_token_metadata env_ok ''Mx'' state_start)))) ''Mx'' = 1"
    by code_simp
  show ?thesis
    using resolved_mint_is_not_looked_up_again [of env_ok "''Mx''" state_start env_symbol_only
        cfg_ex env_ok 1 env_symbol_only "[''My'', ''Mx'']"]
    unfolding v c by simp
qed

text \<open>
  C8. \<open>extract_token_details\<close> builds its record from the first transfer whose
  \<open>fromUserAccount\<close> or \<open>toUserAccount\<close> is the watched address; when no transfer
  matches, from the first transfer of the list: in both cases its result, record
  and state, is that of \<open>enrich_with_transfer\<close> for that transfer. When there is
  no transfer, token name, ticker and mint are "unknown" and the state is
  unchanged, so no metadata lookup is made.
\<close>

theorem candidate_selection:
  "(\<forall>pre c post. tokenTransfers t = pre @ c # post
        \<and> (fromUserAccount c = Some (WATCH_WALLET cfg) \<or> toUserAccount c = Some (WATCH_WALLET cfg))
        \<and> (\<forall>u\<in>set pre. fromUserAccount u \<noteq> Some (WATCH_WALLET cfg)
                        \<and> toUserAccount u \<noteq> Some (WATCH_WALLET cfg))
      \<longrightarrow> extract_token_details cfg en t st = enrich_with_transfer en t c st)
   \<and> (tokenTransfers t \<noteq> []
        \<and> (\<forall>u\<in>set (tokenTransfers t). fromUserAccount u \<noteq> Some (WATCH_WALLET cfg)
                                      \<and> toUserAccount u \<noteq> Some (WATCH_WALLET cfg))
      \<longrightarrow> extract_token_details cfg en t st
            = enrich_with_transfer en t (hd (tokenTransfers t)) st)
   \<and> (tokenTransfers t = []
      \<longrightarrow> extract_token_details cfg en t st
            = (case iso_time t of
                 Inl e \<Rightarrow> (Inl e, st)
               | Inr s \<Rightarrow> (Inr \<lparr>d_signature = signature t, d_time = s,
                                 d_token_name = ''unknown'', d_ticker = ''unknown'',
                                 d_mint = ''unknown''\<rparr>, st)))"
proof (intro conjI allI impI)
  fix pre c post
  assume a: "tokenTransfers t = pre @ c # post
        \<and> (fromUserAccount c = Some (WATCH_WALLET cfg) \<or> toUserAccount c = Some (WATCH_WALLET cfg))
        \<and> (\<forall>u\<in>set pre. fromUserAccount u \<noteq> Some (WATCH_WALLET cfg)
                        \<and> toUserAccount u \<noteq> Some (WATCH_WALLET cfg))"
  then have "select_candidate (WATCH_WALLET cfg) (pre @ c # post) = Some c"
    by (intro select_candidate_first_match) (simp_all add: matches_def)
  then have "select_candidate (WATCH_WALLET cfg) (tokenTransfers t) = Some c"
    using a by simp
  then show "extract_token_details cfg en t st = enrich_with_transfer en t c st"
    by (rule extract_token_details_selected)
next
  assume a: "tokenTransfers t \<noteq> []
        \<and> (\<forall>u\<in>set (tokenTransfers t). fromUserAccount u \<noteq> Some (WATCH_WALLET cfg)
                                      \<and> toUserAccount u \<noteq> Some (WATCH_WALLET cfg))"
  then have "select_candidate (WATCH_WALLET cfg) (tokenTransfers t) = Some (hd (tokenTransfers t))"
    by (intro select_candidate_fallback) (simp_all add: matches_def)
  then show "extract_token_details cfg en t st
            = enrich_with_transfer en t (hd (tokenTransfers t)) st"
    by (rule extract_token_details_selected)
next
  assume "tokenTransfers t = []"
  then show "extract_token_details cfg en t st
            = (case iso_time t of
                 Inl e \<Rightarrow> (Inl e, st)
               | Inr s \<Rightarrow> (Inr \<lparr>d_signature = signature t, d_time = s,
                                 d_token_name = ''unknown'', d_ticker = ''unknown'',
                                 d_mint = ''unknown''\<rparr>, st))"
    by (rule extract_token_details_no_transfers)
qed

theorem candidate_selection_witness:
  "fst (extract_token_details cfg_ex env_ok tx_T state_start)
     = Inr \<lparr>d_signature = Some ''T'', d_time = ''2023-11-14T22:13:20+00:00'',
             d_token_name = ''Two'', d_ticker = ''TWO'', d_mint = ''M2''\<rparr>
   \<and> fst (extract_token_details cfg_Q env_ok tx_T state_start)
     = Inr \<lparr>d_signature = Some ''T'', d_time = ''2023-11-14T22:13:20+00:00'',
             d_token_name = ''One'', d_ticker = ''ONE'', d_mint = ''M1''\<rparr>
   \<and> fst (extract_token_details cfg_ex env_spaces tx_bare state_start)
     = Inr \<lparr>d_signature = Some ''S'', d_time = ''unknown'',
             d_token_name = ''Four'', d_ticker = ''unknown'', d_mint = ''M4''\<rparr>
   \<and> lookups (trace (snd (extract_token_details cfg_ex env_spaces tx_bare state_start))) = [''M4'']
   \<and> extract_token_details cfg_ex env_ok tx_A state_start = (Inr details_A, state_start)"
proof -
  have a: "tokenTransfers tx_T = [tr_other] @ tr_mine # [tr_mine_later]
        \<and> (fromUserAccount tr_mine = Some (WATCH_WALLET cfg_ex) \<or> toUserAccount tr_mine = Some (WATCH_WALLET cfg_ex))
        \<and> (\<forall>u\<in>set [tr_other]. fromUserAccount u \<noteq> Some (WATCH_WALLET cfg_ex)
                               \<and> toUserAccount u \<noteq> Some (WATCH_WALLET cfg_ex))"
    by (simp add: tx_T_def tr_other_def tr_mine_def cfg_ex_def)
  have b: "tokenTransfers tx_T \<noteq> []
        \<and> (\<forall>u\<in>set (tokenTransfers tx_T). fromUserAccount u \<noteq> Some (WATCH_WALLET cfg_Q)
                                         \<and> toUserAccount u \<noteq> Some (WATCH_WALLET cfg_Q))"
    by (simp add: tx_T_def tr_other_def tr_mine_def tr_mine_later_def cfg_Q_def)
  have h: "hd (tokenTransfers tx_T) = tr_other"
    by (simp add: tx_T_def)
  have c: "tokenTransfers tx_bare = [tr_other] @ tr_bare # []
        \<and> (fromUserAccount tr_bare = Some (WATCH_WALLET cfg_ex) \<or> toUserAccount tr_bare = Some (WATCH_WALLET cfg_ex))
        \<and> (\<forall>u\<in>set [tr_other]. fromUserAccount u \<noteq> Some (WATCH_WALLET cfg_ex)
                               \<and> toUserAccount u \<noteq> Some (WATCH_WALLET cfg_ex))"
    by (simp add: tx_bare_def tr_other_def tr_bare_def cfg_ex_def)
  have d: "tokenTransfers tx_A = []"
    by (simp add: tx_A_def)
  have i: "iso_time tx_A = Inr ''1970-01-01T00:01:40+00:00''"
    by code_simp
  have e1: "fst (enrich_with_transfer env_ok tx_T tr_mine state_start)
     = Inr \<lparr>d_signature = Some ''T'', d_time = ''2023-11-14T22:13:20+00:00'',
             d_token_name = ''Two'', d_ticker = ''TWO'', d_mint = ''M2''\<rparr>"
    by code_simp
  have e2: "fst (enrich_with_transfer env_ok tx_T tr_other state_start)
     = Inr \<lparr>d_signature = Some ''T'', d_time = ''2023-11-14T22:13:20+00:00'',
             d_token_name = ''One'', d_ticker = ''ONE'', d_mint = ''M1''\<rparr>"
    by code_simp
  have e3: "fst (enrich_with_transfer env_spaces tx_bare tr_bare state_start)
     = Inr \<lparr>d_signature = Some ''S'', d_time = ''unknown'',
             d_token_name = ''Four'', d_ticker = ''unknown'', d_mint = ''M4''\<rparr>"
    by code_simp
  have e4: "lookups (trace (snd (enrich_with_transfer env_spaces tx_bare tr_bare state_start))) = [''M4'']"
    by code_simp
  have 1: "extract_token_details cfg_ex env_ok tx_T state_start
      = enrich_with_transfer env_ok tx_T tr_mine state_start"
    using candidate_selection [of tx_T cfg_ex env_ok state_start] a by blast
  have 2: "extract_token_details cfg_Q env_ok tx_T state_start
      = enrich_with_transfer env_ok tx_T tr_other state_start"
    using candidate_selection [of tx_T cfg_Q env_ok state_start] b h by simp
  have 3: "extract_token_details cfg_ex env_spaces tx_bare state_start
      = enrich_with_transfer env_spaces tx_bare tr_bare state_start"
    using candidate_selection [of tx_bare cfg_ex env_spaces state_start] c by blast
  have 4: "extract_token_details cfg_ex env_ok tx_A state_start = (Inr details_A, state_start)"
    using candidate_selection [of tx_A cfg_ex env_ok state_start] d i
    by (simp add: details_A_def tx_A_def)
  show ?thesis
    unfolding 1 2 3 4 using e1 e2 e3 e4 by simp
qed

text \<open>
  C9. Claimed: a present timestamp is rendered as ISO-8601 UTC, an absent one as
  "unknown". The source tests \<open>if timestamp\<close>, which is false for 0 as well, and a
  \<open>datetime\<close> holds the years 1 to 9999 only. So: a timestamp that is absent, null
  or 0 gives the time "unknown"; a timestamp other than 0 from -62135596800 to
  253402300799 gives its rendering \<open>YYYY-MM-DDTHH:MM:SS+00:00\<close>; and a timestamp
  outside that range raises, so no record is built.
\<close>

theorem time_field_rendering:
  "(timestamp t = Absent \<or> timestamp t = Null \<or> timestamp t = Val 0
      \<longrightarrow> (\<exists>d. fst (extract_token_details cfg en t st) = Inr d \<and> d_time d = ''unknown''))
   \<and> (\<forall>ts. timestamp t = Val ts \<and> ts \<noteq> 0 \<and> - 62135596800 \<le> ts \<and> ts \<le> 253402300799
      \<longrightarrow> (\<exists>d s. fst (extract_token_details cfg en t st) = Inr d \<and> ts_to_iso ts = Inr s
             \<and> d_time d = s \<and> length s = 25 \<and> s ! 4 = CHR ''-'' \<and> s ! 7 = CHR ''-''
             \<and> s ! 10 = CHR ''T'' \<and> s ! 13 = CHR '':'' \<and> s ! 16 = CHR '':''
             \<and> drop 19 s = ''+00:00''))
   \<and> (\<forall>ts. timestamp t = Val ts \<and> (ts < - 62135596800 \<or> 253402300799 < ts)
      \<longrightarrow> extract_token_details cfg en t st = (Inl OtherException, st))"
proof (intro conjI allI impI)
  assume "timestamp t = Absent \<or> timestamp t = Null \<or> timestamp t = Val 0"
  then have "iso_time t = Inr ''unknown''"
    by (rule iso_time_unknown)
  then show "\<exists>d. fst (extract_token_details cfg en t st) = Inr d \<and> d_time d = ''unknown''"
    by (rule extract_token_details_time)
next
  fix ts
  assume a: "timestamp t = Val ts \<and> ts \<noteq> 0 \<and> - 62135596800 \<le> ts \<and> ts \<le> 253402300799"
  then obtain s where s: "ts_to_iso ts = Inr s" "length s = 25" "s ! 4 = CHR ''-''"
      "s ! 7 = CHR ''-''" "s ! 10 = CHR ''T''" "s ! 13 = CHR '':''" "s ! 16 = CHR '':''"
      "drop 19 s = ''+00:00''"
    using ts_to_iso_in_range [of ts] by blast
  have "iso_time t = Inr s"
    using a s(1) by (simp add: iso_time_def)
  then obtain d where "fst (extract_token_details cfg en t st) = Inr d" "d_time d = s"
    using extract_token_details_time by blast
  then show "\<exists>d s. fst (extract_token_details cfg en t st) = Inr d \<and> ts_to_iso ts = Inr s
             \<and> d_time d = s \<and> length s = 25 \<and> s ! 4 = CHR ''-'' \<and> s ! 7 = CHR ''-''
             \<and> s ! 10 = CHR ''T'' \<and> s ! 13 = CHR '':'' \<and> s ! 16 = CHR '':''
             \<and> drop 19 s = ''+00:00''"
    using s by blast
next
  fix ts
  assume a: "timestamp t = Val ts \<and> (ts < - 62135596800 \<or> 253402300799 < ts)"
  then have "ts \<noteq> 0" by auto
  moreover have "ts_to_iso ts = Inl OtherException"
    using a by (intro ts_to_iso_out_of_range) simp
  ultimately have "iso_time t = Inl OtherException"
    using a by (simp add: iso_time_def)
  then show "extract_token_details cfg en t st = (Inl OtherException, st)"
    by (simp add: extract_token_details_def)
qed

theorem time_field_rendering_witness:
  "(\<exists>d. fst (extract_token_details cfg_ex env_ok tx_epoch state_start) = Inr d
         \<and> d_time d = ''unknown'')
   \<and> (\<exists>d. fst (extract_token_details cfg_ex env_ok tx_null state_start) = Inr d
         \<and> d_time d = ''unknown'')
   \<and> (\<exists>d. fst (extract_token_details cfg_ex env_ok tx_T state_start) = Inr d
         \<and> d_time d = ''2023-11-14T22:13:20+00:00'')
   \<and> extract_token_details cfg_ex env_ok tx_far state_start = (Inl OtherException, state_start)"
proof -
  have e: "timestamp tx_epoch = Absent \<or> timestamp tx_epoch = Null \<or> timestamp tx_epoch = Val 0"
    by (simp add: tx_epoch_def)
  have n: "timestamp tx_null = Absent \<or> timestamp tx_null = Null \<or> timestamp tx_null = Val 0"
    by (simp add: tx_null_def)
  have t: "timestamp tx_T = Val 1700000000 \<and> (1700000000::int) \<noteq> 0
      \<and> - 62135596800 \<le> (1700000000::int) \<and> (1700000000::int) \<le> 253402300799"
    by (simp add: tx_T_def)
  have f: "timestamp tx_far = Val 253402300800
      \<and> ((253402300800::int) < - 62135596800 \<or> 253402300799 < (253402300800::int))"
    by (simp add: tx_far_def)
  have r: "ts_to_iso 1700000000 = Inr ''2023-11-14T22:13:20+00:00''"
    by code_simp
  have 1: "\<exists>d. fst (extract_token_details cfg_ex env_ok tx_epoch state_start) = Inr d
         \<and> d_time d = ''unknown''"
    using time_field_rendering [of tx_epoch cfg_ex env_ok state_start] e by blast
  have 0: "\<exists>d. fst (extract_token_details cfg_ex env_ok tx_null state_start) = Inr d
         \<and> d_time d = ''unknown''"
    using time_field_rendering [of tx_null cfg_ex env_ok state_start] n by blast
  have "\<exists>d s. fst (extract_token_details cfg_ex env_ok tx_T state_start) = Inr d
         \<and> ts_to_iso 1700000000 = Inr s \<and> d_time d = s"
    using time_field_rendering [of tx_T cfg_ex env_ok state_start] t by blast
  then have 2: "\<exists>d. fst (extract_token_details cfg_ex env_ok tx_T state_start) = Inr d
         \<and> d_time d = ''2023-11-14T22:13:20+00:00''"
    unfolding r by auto
  have 3: "extract_token_details cfg_ex env_ok tx_far state_start = (Inl OtherException, state_start)"
    using time_field_rendering [of tx_far cfg_ex env_ok state_start] f by blast
  show ?thesis using 0 1 2 3 by blast
qed

text \<open>
  The timestamp 0 is present and has the rendering 1970-01-01T00:00:00+00:00, but the
  record's time is "unknown".
\<close>

theorem epoch_timestamp_counterexample:
  "timestamp tx_epoch = Val 0
   \<and> ts_to_iso 0 = Inr ''1970-01-01T00:00:00+00:00''
   \<and> fst (extract_token_details cfg_ex env_ok tx_epoch state_start)
       = Inr \<lparr>d_signature = Some ''E'', d_time = ''unknown'', d_token_name = ''unknown'',
               d_ticker = ''unknown'', d_mint = ''unknown''\<rparr>"
  by code_simp

end
